theory Spec2Isabelle
  imports Main "HOL-Library.Sublist"
begin

section \<open>JavaScript values and strings\<close>

text \<open>
  The two proxies (\<^verbatim>\<open>worker.js\<close>, the edge handler, and \<^verbatim>\<open>server.js\<close>, the long-running
  Node process) work on values decoded from JSON. A JavaScript value is one of the JSON
  shapes or \<^verbatim>\<open>undefined\<close>. The program never computes with numbers: it only tests their
  truthiness and prints them, so a number is carried as the text that JavaScript prints
  for it (\<^verbatim>\<open>0.82\<close> is \<open>JNum ''0.82''\<close>, and both zeros print as \<^verbatim>\<open>0\<close>). An object is the
  list of its own properties in enumeration order, with distinct keys. A string is a list
  of code units; \<open>char\<close> covers the code units below 256.
\<close>

datatype jsval =
    JUndefined
  | JNull
  | JBool bool
  | JNum string
  | JStr string
  | JArr "jsval list"
  | JObj "(string \<times> jsval) list"

text \<open>The exceptions the program can raise: a TypeError (a value that cannot be
  converted or iterated, a response that cannot have a body), a RangeError (a status no
  response can have), the SyntaxError of \<^verbatim>\<open>JSON.parse\<close>, the error of the size limit, and
  the rejection of \<^verbatim>\<open>fetch\<close>.\<close>

datatype js_error = TypeError | RangeError | NetworkError | SyntaxError | RequestTooLarge

abbreviation NL :: char where "NL \<equiv> CHR 0x0A"
abbreviation DQ :: char where "DQ \<equiv> CHR 0x22"
abbreviation BSL :: char where "BSL \<equiv> CHR 0x5C"

fun truthy :: "jsval \<Rightarrow> bool" where
  "truthy JUndefined = False"
| "truthy JNull = False"
| "truthy (JBool b) = b"
| "truthy (JNum t) = (t \<noteq> ''0'' \<and> t \<noteq> ''NaN'')"
| "truthy (JStr s) = (s \<noteq> [])"
| "truthy (JArr xs) = True"
| "truthy (JObj kvs) = True"

fun typeof :: "jsval \<Rightarrow> string" where
  "typeof JUndefined = ''undefined''"
| "typeof JNull = ''object''"
| "typeof (JBool b) = ''boolean''"
| "typeof (JNum t) = ''number''"
| "typeof (JStr s) = ''string''"
| "typeof (JArr xs) = ''object''"
| "typeof (JObj kvs) = ''object''"

fun isArray :: "jsval \<Rightarrow> bool" where
  "isArray (JArr xs) = True"
| "isArray v = False"

text \<open>
  Property access \<^verbatim>\<open>v.k\<close> and \<^verbatim>\<open>v?.k\<close> for the property names the program reads
  (\<^verbatim>\<open>role\<close>, \<^verbatim>\<open>content\<close>, \<^verbatim>\<open>input\<close>, \<^verbatim>\<open>history\<close>, \<^verbatim>\<open>telemetry\<close>, \<^verbatim>\<open>error\<close>, \<^verbatim>\<open>message\<close>,
  \<^verbatim>\<open>output_text\<close>, \<^verbatim>\<open>output\<close>, \<^verbatim>\<open>type\<close>, \<^verbatim>\<open>text\<close>, \<^verbatim>\<open>choices\<close>): none of them is a property
  of a primitive, of an array or of \<^verbatim>\<open>Object.prototype\<close>, so only an object's own
  property answers. Every plain \<^verbatim>\<open>.\<close> access in the source is on a value already known
  not to be null or undefined, so the two forms agree and \<open>getprop\<close> models both.
\<close>

fun getprop :: "jsval \<Rightarrow> string \<Rightarrow> jsval" where
  "getprop (JObj kvs) k = (case map_of kvs k of Some v \<Rightarrow> v | None \<Rightarrow> JUndefined)"
| "getprop v k = JUndefined"

text \<open>\<^verbatim>\<open>v?.[0]\<close>: the first element of an array, the first code unit of a string, the
  property \<^verbatim>\<open>"0"\<close> of an object.\<close>

fun index0 :: "jsval \<Rightarrow> jsval" where
  "index0 (JArr xs) = (case xs of [] \<Rightarrow> JUndefined | x # _ \<Rightarrow> x)"
| "index0 (JStr s) = (case s of [] \<Rightarrow> JUndefined | c # _ \<Rightarrow> JStr [c])"
| "index0 (JObj kvs) = (case map_of kvs ''0'' of Some v \<Rightarrow> v | None \<Rightarrow> JUndefined)"
| "index0 v = JUndefined"

text \<open>\<^verbatim>\<open>a || b\<close>.\<close>

definition or_js :: "jsval \<Rightarrow> jsval \<Rightarrow> jsval" where
  "or_js a b = (if truthy a then a else b)"

text \<open>\<^verbatim>\<open>Array.prototype.join\<close> on strings.\<close>

fun join :: "string \<Rightarrow> string list \<Rightarrow> string" where
  "join sep [] = []"
| "join sep [x] = x"
| "join sep (x # y # ys) = x @ sep @ join sep (y # ys)"

text \<open>
  \<^verbatim>\<open>String(v)\<close> and the conversion a template literal applies. An array prints its
  elements joined by commas, with \<^verbatim>\<open>null\<close> and \<^verbatim>\<open>undefined\<close> elements printed as
  nothing. An object is converted by its \<^verbatim>\<open>toString\<close> method: the inherited one prints
  \<^verbatim>\<open>[object Object]\<close>, but an own property named \<^verbatim>\<open>toString\<close> hides it, and since no
  value decoded from JSON can be called (and \<^verbatim>\<open>valueOf\<close> gives the object back) the
  conversion then throws a TypeError, also for an object inside an array.
\<close>

fun ToString :: "jsval \<Rightarrow> js_error + string"
and elems_ToString :: "jsval list \<Rightarrow> js_error + string list" where
  "ToString JUndefined = Inr ''undefined''"
| "ToString JNull = Inr ''null''"
| "ToString (JBool b) = Inr (if b then ''true'' else ''false'')"
| "ToString (JNum t) = Inr t"
| "ToString (JStr s) = Inr s"
| "ToString (JArr xs) =
     (case elems_ToString xs of Inl e \<Rightarrow> Inl e | Inr ss \<Rightarrow> Inr (join '','' ss))"
| "ToString (JObj kvs) =
     (if ''toString'' \<in> set (map fst kvs) then Inl TypeError else Inr ''[object Object]'')"
| "elems_ToString [] = Inr []"
| "elems_ToString (x # xs) =
     (case (if x = JNull \<or> x = JUndefined then Inr [] else ToString x) of
        Inl e \<Rightarrow> Inl e
      | Inr s \<Rightarrow> (case elems_ToString xs of Inl e \<Rightarrow> Inl e | Inr ss \<Rightarrow> Inr (s # ss)))"

text \<open>The white space and line terminators that \<^verbatim>\<open>String.prototype.trim\<close> strips, among
  the code units below 256: TAB, LF, VT, FF, CR, SPACE and NO-BREAK SPACE.\<close>

definition is_space :: "char \<Rightarrow> bool" where
  "is_space c = (c = CHR 0x09 \<or> c = CHR 0x0A \<or> c = CHR 0x0B \<or> c = CHR 0x0C \<or> c = CHR 0x0D
                 \<or> c = CHR 0x20 \<or> c = CHR 0xA0)"

definition trim :: "string \<Rightarrow> string" where
  "trim s = rev (dropWhile is_space (rev (dropWhile is_space s)))"

text \<open>\<^verbatim>\<open>s.slice(0, n)\<close> for \<open>n \<ge> 0\<close> and \<^verbatim>\<open>xs.slice(-n)\<close> for \<open>n > 0\<close>.\<close>

definition slice_to :: "nat \<Rightarrow> 'a list \<Rightarrow> 'a list" where
  "slice_to n xs = take n xs"

definition slice_last :: "nat \<Rightarrow> 'a list \<Rightarrow> 'a list" where
  "slice_last n xs = drop (length xs - n) xs"

section \<open>Request sanitizer: \<^verbatim>\<open>normalizeHistory\<close>\<close>

text \<open>The function has the same text in \<^verbatim>\<open>worker.js\<close> (lines 50 to 62) and in
  \<^verbatim>\<open>server.js\<close> (lines 92 to 104).\<close>

record turn =
  role :: string
  content :: string

text \<open>The body of the \<^verbatim>\<open>for\<close> loop: \<open>None\<close> is \<^verbatim>\<open>continue\<close>, \<open>Some t\<close> is the turn
  pushed on \<^verbatim>\<open>safe\<close>.\<close>

definition history_item :: "jsval \<Rightarrow> turn option" where
  "history_item item =
     (if \<not> truthy item \<or> typeof item \<noteq> ''object'' then None
      else (case getprop item ''role'' of
              JStr r \<Rightarrow>
                if r \<noteq> ''user'' \<and> r \<noteq> ''assistant'' then None
                else (case getprop item ''content'' of
                        JStr c \<Rightarrow>
                          if trim c = [] then None
                          else Some \<lparr>role = r, content = slice_to 4000 (trim c)\<rparr>
                      | _ \<Rightarrow> None)
            | _ \<Rightarrow> None))"

fun history_loop :: "turn list \<Rightarrow> jsval list \<Rightarrow> turn list" where
  "history_loop safe [] = safe"
| "history_loop safe (item # items) =
     (case history_item item of
        None \<Rightarrow> history_loop safe items
      | Some t \<Rightarrow> history_loop (safe @ [t]) items)"

definition normalizeHistory :: "jsval \<Rightarrow> turn list" where
  "normalizeHistory history =
     (case history of
        JArr items \<Rightarrow> slice_last 24 (history_loop [] items)
      | _ \<Rightarrow> [])"

section \<open>\<^verbatim>\<open>JSON.stringify\<close>\<close>

text \<open>
  The built-in serializer, for the two ways the program calls it: \<^verbatim>\<open>JSON.stringify(v)\<close>
  (no gap) and \<^verbatim>\<open>JSON.stringify(v, null, 2)\<close> (a gap of two spaces). A string is quoted
  with the escapes of the standard; an \<^verbatim>\<open>undefined\<close> array element prints as \<^verbatim>\<open>null\<close> and
  an \<^verbatim>\<open>undefined\<close> property is left out. The program calls it on objects and arrays
  only.
\<close>

definition hex_digit :: "nat \<Rightarrow> char" where
  "hex_digit n = ''0123456789abcdef'' ! (n mod 16)"

definition quote_char :: "char \<Rightarrow> string" where
  "quote_char c =
     (if c = CHR 0x08 then [BSL, CHR ''b'']
      else if c = CHR 0x09 then [BSL, CHR ''t'']
      else if c = NL then [BSL, CHR ''n'']
      else if c = CHR 0x0C then [BSL, CHR ''f'']
      else if c = CHR 0x0D then [BSL, CHR ''r'']
      else if c = DQ then [BSL, DQ]
      else if c = BSL then [BSL, BSL]
      else if (of_char c :: nat) < 32
        then [BSL, CHR ''u'', CHR ''0'', CHR ''0'',
              hex_digit ((of_char c :: nat) div 16), hex_digit (of_char c :: nat)]
      else [c])"

text \<open>A number that is not finite is written \<^verbatim>\<open>null\<close>; \<^verbatim>\<open>JSON.parse\<close> gives \<^verbatim>\<open>Infinity\<close>
  for a literal such as \<^verbatim>\<open>1e400\<close>.\<close>

definition number_json :: "string \<Rightarrow> string" where
  "number_json t = (if t = ''Infinity'' \<or> t = ''-Infinity'' \<or> t = ''NaN'' then ''null'' else t)"

definition quote :: "string \<Rightarrow> string" where
  "quote s = [DQ] @ concat (map quote_char s) @ [DQ]"

text \<open>\<open>wrap l r gap ind parts\<close> lays out the serialized members of an array or object
  whose own indentation is \<open>ind\<close>.\<close>

definition wrap :: "string \<Rightarrow> string \<Rightarrow> string \<Rightarrow> string \<Rightarrow> string list \<Rightarrow> string" where
  "wrap l r gap ind parts =
     (if parts = [] then l @ r
      else if gap = [] then l @ join '','' parts @ r
      else l @ [NL] @ (ind @ gap) @ join ('','' @ [NL] @ (ind @ gap)) parts @ [NL] @ ind @ r)"

fun serialize :: "string \<Rightarrow> string \<Rightarrow> jsval \<Rightarrow> string"
and serialize_elems :: "string \<Rightarrow> string \<Rightarrow> jsval list \<Rightarrow> string list"
and serialize_members :: "string \<Rightarrow> string \<Rightarrow> (string \<times> jsval) list \<Rightarrow> string list" where
  "serialize gap ind JUndefined = ''null''"
| "serialize gap ind JNull = ''null''"
| "serialize gap ind (JBool b) = (if b then ''true'' else ''false'')"
| "serialize gap ind (JNum t) = number_json t"
| "serialize gap ind (JStr s) = quote s"
| "serialize gap ind (JArr xs) = wrap ''['' '']'' gap ind (serialize_elems gap (ind @ gap) xs)"
| "serialize gap ind (JObj kvs) = wrap ''{'' ''}'' gap ind (serialize_members gap (ind @ gap) kvs)"
| "serialize_elems gap ind [] = []"
| "serialize_elems gap ind (x # xs) = serialize gap ind x # serialize_elems gap ind xs"
| "serialize_members gap ind [] = []"
| "serialize_members gap ind ((k, v) # kvs) =
     (if v = JUndefined then serialize_members gap ind kvs
      else (quote k @ '':'' @ (if gap = [] then [] else '' '') @ serialize gap ind v)
           # serialize_members gap ind kvs)"

definition JSON_stringify :: "jsval \<Rightarrow> string" where
  "JSON_stringify v = serialize [] [] v"

definition JSON_stringify_2 :: "jsval \<Rightarrow> string" where
  "JSON_stringify_2 v = serialize ''  '' [] v"

section \<open>Instruction composer\<close>

text \<open>\<^verbatim>\<open>systemParts\<close>, \<^verbatim>\<open>telemetryJson\<close> and \<^verbatim>\<open>systemPrompt\<close> have the same text in
  \<^verbatim>\<open>worker.js\<close> (lines 78 to 89) and in \<^verbatim>\<open>server.js\<close> (lines 113 to 124).\<close>

definition systemParts :: "string list" where
  "systemParts =
     [''You are Star Chart AI, a helpful assistant embedded in a factory-floor telemetry dashboard called Star Chart Systems.'',
      ''Answer as a pragmatic operations/industrial engineer. Be concise and specific.'',
      ''If the user asks for data not in the telemetry snapshot, say what you can infer and what you would need to confirm.'']"

definition telemetryJson :: "jsval \<Rightarrow> string" where
  "telemetryJson telemetry =
     (if truthy telemetry \<and> typeof telemetry = ''object''
      then JSON_stringify_2 telemetry
      else ''{}'')"

definition systemPrompt :: "jsval \<Rightarrow> string" where
  "systemPrompt telemetry =
     join '' '' systemParts @ [NL, NL] @ ''Telemetry snapshot (JSON):'' @ [NL]
     @ telemetryJson telemetry"

section \<open>Provider calls\<close>

text \<open>
  A call to the provider is a \<^verbatim>\<open>fetch\<close> of a POST request with a bearer credential and a
  JSON body. The provider is a function from the request to what \<^verbatim>\<open>fetch\<close> gives back:
  \<open>None\<close> when the promise rejects (no connection), otherwise the HTTP status and the
  value of \<^verbatim>\<open>await response.json().catch(() => null)\<close>, which is \<^verbatim>\<open>null\<close> when the body is
  not JSON. Each strategy returns the list of requests it sent, in order, beside its
  result, so that "no network call" is the empty list.
\<close>

record api_request =
  url :: string
  authorization :: string
  json_body :: jsval

record http_response =
  response_status :: nat
  response_data :: jsval

type_synonym provider = "api_request \<Rightarrow> http_response option"

text \<open>\<^verbatim>\<open>response.ok\<close>.\<close>

definition response_ok :: "http_response \<Rightarrow> bool" where
  "response_ok r = (200 \<le> response_status r \<and> response_status r \<le> 299)"

text \<open>The result objects \<^verbatim>\<open>{ ok, status, text, model }\<close> and \<^verbatim>\<open>{ ok, status, error }\<close>; a
  field the object literal does not have is \<open>None\<close>. The \<^verbatim>\<open>error\<close> of a failed call may be
  any truthy value the provider put in \<^verbatim>\<open>error.message\<close>, so it is a \<open>jsval\<close>.\<close>

record completion_result =
  ok :: bool
  status :: nat
  result_text :: "string option"
  error :: "jsval option"
  model :: "string option"

definition failure :: "nat \<Rightarrow> jsval \<Rightarrow> completion_result" where
  "failure st e = \<lparr>ok = False, status = st, result_text = None, error = Some e, model = None\<rparr>"

definition success :: "string \<Rightarrow> string option \<Rightarrow> completion_result" where
  "success t m = \<lparr>ok = True, status = 200, result_text = Some t, error = None, model = m\<rparr>"

record environment =
  OPENAI_API_KEY :: "string option"
  OPENAI_MODEL :: "string option"
  CCD_AI_OPENAI_MODEL :: "string option"

text \<open>\<^verbatim>\<open>v || d\<close> on an environment variable: unset and empty are both falsy.\<close>

definition env_or :: "string option \<Rightarrow> string \<Rightarrow> string" where
  "env_or v d = (case v of None \<Rightarrow> d | Some s \<Rightarrow> if s = [] then d else s)"

text \<open>\<^verbatim>\<open>data && typeof data === "object" ? data.error?.message || JSON.stringify(data)
  : "Unknown error"\<close>, the same in the three places it occurs.\<close>

definition error_detail :: "jsval \<Rightarrow> jsval" where
  "error_detail data =
     (if truthy data \<and> typeof data = ''object''
      then or_js (getprop (getprop data ''error'') ''message'') (JStr (JSON_stringify data))
      else JStr ''Unknown error'')"

text \<open>\<^verbatim>\<open>for (const x of v)\<close>: an array gives its elements, a string its characters, and any
  other value is not iterable (a TypeError).\<close>

fun iterate :: "jsval \<Rightarrow> js_error + jsval list" where
  "iterate (JArr xs) = Inr xs"
| "iterate (JStr s) = Inr (map (\<lambda>c. JStr [c]) s)"
| "iterate v = Inl TypeError"

text \<open>The inner loop over \<^verbatim>\<open>item?.content || []\<close> and the outer loop over
  \<^verbatim>\<open>data?.output || []\<close>, collecting \<^verbatim>\<open>chunks\<close>.\<close>

fun part_chunks :: "jsval list \<Rightarrow> string list" where
  "part_chunks [] = []"
| "part_chunks (part # parts) =
     (if getprop part ''type'' = JStr ''output_text''
      then (case getprop part ''text'' of
              JStr t \<Rightarrow> t # part_chunks parts
            | _ \<Rightarrow> part_chunks parts)
      else part_chunks parts)"

fun item_chunks :: "jsval list \<Rightarrow> js_error + string list" where
  "item_chunks [] = Inr []"
| "item_chunks (item # items) =
     (case iterate (or_js (getprop item ''content'') (JArr [])) of
        Inl e \<Rightarrow> Inl e
      | Inr parts \<Rightarrow>
          (case item_chunks items of
             Inl e \<Rightarrow> Inl e
           | Inr cs \<Rightarrow> Inr (part_chunks parts @ cs)))"

definition output_chunks :: "jsval \<Rightarrow> js_error + string list" where
  "output_chunks data =
     (case iterate (or_js (getprop data ''output'') (JArr [])) of
        Inl e \<Rightarrow> Inl e
      | Inr items \<Rightarrow> item_chunks items)"

text \<open>\<^verbatim>\<open>typeof outputText === "string" && outputText.trim()\<close>: the aggregated text when it
  is usable.\<close>

definition output_text :: "jsval \<Rightarrow> string option" where
  "output_text data =
     (case getprop data ''output_text'' of
        JStr s \<Rightarrow> if trim s \<noteq> [] then Some s else None
      | _ \<Rightarrow> None)"

text \<open>The tail of the primary attempt, from \<^verbatim>\<open>const chunks = []\<close> on.\<close>

definition chunks_result :: "string option \<Rightarrow> jsval \<Rightarrow> js_error + completion_result" where
  "chunks_result m data =
     (case output_chunks data of
        Inl e \<Rightarrow> Inl e
      | Inr chunks \<Rightarrow>
          let t = trim (join [NL] chunks) in
          if t = [] then Inr (failure 502 (JStr ''OpenAI response missing text.''))
          else Inr (success t m))"

definition render_turn :: "turn \<Rightarrow> string" where
  "render_turn m = (if role m = ''user'' then ''User'' else ''Assistant'') @ '': '' @ content m"

definition responses_request :: "string \<Rightarrow> string \<Rightarrow> string \<Rightarrow> string \<Rightarrow> api_request" where
  "responses_request key mdl instructions transcript =
     \<lparr>url = ''https://api.openai.com/v1/responses'',
      authorization = ''Bearer '' @ key,
      json_body = JObj [(''model'', JStr mdl), (''instructions'', JStr instructions),
                   (''input'', JStr transcript), (''temperature'', JNum ''0.4''),
                   (''max_output_tokens'', JNum ''350'')]\<rparr>"

text \<open>\<^verbatim>\<open>String(input || "").trim().slice(0, 4000)\<close>, in both files; the conversion can
  throw.\<close>

definition userInput :: "jsval \<Rightarrow> js_error + string" where
  "userInput input =
     (case ToString (or_js input (JStr [])) of
        Inl e \<Rightarrow> Inl e
      | Inr s \<Rightarrow> Inr (slice_to 4000 (trim s)))"

section \<open>The edge handler's strategy (\<^verbatim>\<open>worker.js\<close>)\<close>

definition worker_model :: "environment \<Rightarrow> string" where
  "worker_model env = env_or (OPENAI_MODEL env) ''gpt-4.1''"

text \<open>\<^verbatim>\<open>transcript\<close>, for the user input \<open>ui\<close> already converted.\<close>

definition worker_transcript :: "jsval \<Rightarrow> string \<Rightarrow> string" where
  "worker_transcript history ui =
     join [NL] (map render_turn (normalizeHistory history) @ [''User: '' @ ui])"

text \<open>What \<^verbatim>\<open>callOpenAI\<close> does with the response of its one call.\<close>

definition worker_read :: "string \<Rightarrow> http_response \<Rightarrow> js_error + completion_result" where
  "worker_read mdl response =
     (let data = response_data response in
      if \<not> response_ok response
        then Inr (failure (response_status response) (error_detail data))
      else (case output_text data of
              Some s \<Rightarrow> Inr (success (trim s) (Some mdl))
            | None \<Rightarrow> chunks_result (Some mdl) data))"

text \<open>\<^verbatim>\<open>callOpenAI\<close>: the credential, then the system prompt (which cannot throw), then
  the user input (which can), then the one call.\<close>

definition worker_callOpenAI ::
  "provider \<Rightarrow> environment \<Rightarrow> jsval \<Rightarrow> jsval \<Rightarrow> jsval
   \<Rightarrow> api_request list \<times> (js_error + completion_result)" where
  "worker_callOpenAI fetch env input history telemetry =
     (let key = env_or (OPENAI_API_KEY env) [] in
      if key = [] then ([], Inr (failure 500 (JStr ''Missing OPENAI_API_KEY.'')))
      else
        (case userInput input of
           Inl e \<Rightarrow> ([], Inl e)
         | Inr ui \<Rightarrow>
             if ui = [] then ([], Inr (failure 400 (JStr ''Missing input.'')))
             else
               let req = responses_request key (worker_model env) (systemPrompt telemetry)
                           (worker_transcript history ui) in
               (case fetch req of
                  None \<Rightarrow> ([req], Inl NetworkError)
                | Some response \<Rightarrow> ([req], worker_read (worker_model env) response))))"

section \<open>The long-running process's strategy (\<^verbatim>\<open>server.js\<close>)\<close>

definition server_model :: "environment \<Rightarrow> string" where
  "server_model env = env_or (CCD_AI_OPENAI_MODEL env) ''gpt-4.1-mini''"

text \<open>\<^verbatim>\<open>messages\<close>, for the user input \<open>ui\<close> already converted (the array literal evaluates
  \<^verbatim>\<open>String(input || "")\<close> last, after the system prompt and the history).\<close>

definition messages :: "string \<Rightarrow> jsval \<Rightarrow> jsval \<Rightarrow> turn list" where
  "messages ui history telemetry =
     [\<lparr>role = ''system'', content = systemPrompt telemetry\<rparr>]
     @ normalizeHistory history
     @ [\<lparr>role = ''user'', content = ui\<rparr>]"

definition server_transcript :: "turn list \<Rightarrow> string" where
  "server_transcript ms = join [NL] (map render_turn (filter (\<lambda>m. role m \<noteq> ''system'') ms))"

definition turn_json :: "turn \<Rightarrow> jsval" where
  "turn_json m = JObj [(''role'', JStr (role m)), (''content'', JStr (content m))]"

definition chat_request :: "string \<Rightarrow> string \<Rightarrow> turn list \<Rightarrow> api_request" where
  "chat_request key mdl ms =
     \<lparr>url = ''https://api.openai.com/v1/chat/completions'',
      authorization = ''Bearer '' @ key,
      json_body = JObj [(''model'', JStr mdl), (''messages'', JArr (map turn_json ms)),
                   (''temperature'', JNum ''0.4''), (''max_tokens'', JNum ''350'')]\<rparr>"

definition responses_read :: "http_response \<Rightarrow> js_error + completion_result" where
  "responses_read response =
     (let data = response_data response in
      if \<not> response_ok response
        then Inr (failure (response_status response) (error_detail data))
      else (case output_text data of
              Some s \<Rightarrow> Inr (success s None)
            | None \<Rightarrow> chunks_result None data))"

definition tryResponsesApi ::
  "provider \<Rightarrow> string \<Rightarrow> string \<Rightarrow> string \<Rightarrow> turn list
   \<Rightarrow> api_request list \<times> (js_error + completion_result)" where
  "tryResponsesApi fetch key mdl sp ms =
     (let req = responses_request key mdl sp (server_transcript ms) in
      case fetch req of
        None \<Rightarrow> ([req], Inl NetworkError)
      | Some response \<Rightarrow> ([req], responses_read response))"

definition chat_read :: "http_response \<Rightarrow> completion_result" where
  "chat_read response =
     (let data = response_data response in
      if \<not> response_ok response
        then failure (response_status response) (error_detail data)
      else (case getprop (getprop (index0 (getprop data ''choices'')) ''message'') ''content'' of
              JStr t \<Rightarrow>
                if trim t = [] then failure 502 (JStr ''OpenAI response missing text.'')
                else success t None
            | _ \<Rightarrow> failure 502 (JStr ''OpenAI response missing text.'')))"

definition tryChatCompletionsApi ::
  "provider \<Rightarrow> string \<Rightarrow> string \<Rightarrow> turn list
   \<Rightarrow> api_request list \<times> (js_error + completion_result)" where
  "tryChatCompletionsApi fetch key mdl ms =
     (let req = chat_request key mdl ms in
      case fetch req of
        None \<Rightarrow> ([req], Inl NetworkError)
      | Some response \<Rightarrow> ([req], Inr (chat_read response)))"

definition fallbackableStatuses :: "nat set" where
  "fallbackableStatuses = {400, 404, 405, 415}"

text \<open>The text a template literal prints for the \<^verbatim>\<open>error\<close> field of a result, or the
  TypeError of the conversion.\<close>

definition error_text :: "completion_result \<Rightarrow> js_error + string" where
  "error_text r = (case error r of None \<Rightarrow> Inr ''undefined'' | Some e \<Rightarrow> ToString e)"

text \<open>The composite error of the last \<^verbatim>\<open>return\<close>: the template literal converts the
  primary's error, then the secondary's.\<close>

definition composite_error ::
  "completion_result \<Rightarrow> completion_result \<Rightarrow> js_error + completion_result" where
  "composite_error responsesResult chatResult =
     (case error_text responsesResult of
        Inl e \<Rightarrow> Inl e
      | Inr m1 \<Rightarrow>
          (case error_text chatResult of
             Inl e \<Rightarrow> Inl e
           | Inr m2 \<Rightarrow>
               Inr (failure (status chatResult)
                      (JStr (''Responses API error: '' @ m1 @ [NL]
                             @ ''Chat Completions error: '' @ m2)))))"

definition server_callOpenAI ::
  "provider \<Rightarrow> environment \<Rightarrow> jsval \<Rightarrow> jsval \<Rightarrow> jsval
   \<Rightarrow> api_request list \<times> (js_error + completion_result)" where
  "server_callOpenAI fetch env input history telemetry =
     (let key = env_or (OPENAI_API_KEY env) [] in
      if key = [] then ([], Inr (failure 500 (JStr ''Missing OPENAI_API_KEY in environment.'')))
      else
        (case userInput input of
           Inl e \<Rightarrow> ([], Inl e)
         | Inr ui \<Rightarrow>
             let sp = systemPrompt telemetry;
                 ms = messages ui history telemetry in
             (case tryResponsesApi fetch key (server_model env) sp ms of
                (sent, Inl e) \<Rightarrow> (sent, Inl e)
              | (sent, Inr responsesResult) \<Rightarrow>
                  if ok responsesResult then (sent, Inr responsesResult)
                  else if status responsesResult \<notin> fallbackableStatuses
                    then (sent, Inr responsesResult)
                  else
                    (case tryChatCompletionsApi fetch key (server_model env) ms of
                       (sent2, Inl e) \<Rightarrow> (sent @ sent2, Inl e)
                     | (sent2, Inr chatResult) \<Rightarrow>
                         if ok chatResult then (sent @ sent2, Inr chatResult)
                         else (sent @ sent2, composite_error responsesResult chatResult)))))"

section \<open>HTTP boundary\<close>

text \<open>
  A request is its method (\<open>req_method\<close>), the path of its URL and the chunks of its
  body, which are bytes. Reading the origin and setting the CORS and cache headers is
  left out, and so is static file serving, which is only named (\<open>StaticReply\<close>). Two
  built-ins are parameters: the UTF-8 decoder that turns the bytes of a body into a
  string (\<^verbatim>\<open>request.text()\<close>, \<^verbatim>\<open>Buffer.toString("utf8")\<close>), and \<^verbatim>\<open>JSON.parse\<close>, where \<open>None\<close>
  is its SyntaxError. A reply is a status with the value that is serialized as its JSON
  body, a status with a text, or a status alone.
\<close>

type_synonym bytes = "char list"

record http_request =
  req_method :: string
  pathname :: string
  chunks :: "bytes list"








subsection \<open>\<^verbatim>\<open>worker.js\<close>\<close>





subsection \<open>\<^verbatim>\<open>server.js\<close>\<close>






section \<open>Names used in the statements\<close>

text \<open>A list of sent requests contains a call to the secondary (Chat Completions)
  endpoint.\<close>

definition secondary_called :: "api_request list \<Rightarrow> bool" where
  "secondary_called sent = (''https://api.openai.com/v1/chat/completions'' \<in> set (map url sent))"

text \<open>What the sanitizer requires of a history element, in the words of the
  specification: an object whose \<^verbatim>\<open>role\<close> is \<^verbatim>\<open>user\<close> or \<^verbatim>\<open>assistant\<close> and whose
  \<^verbatim>\<open>content\<close> is a string that is not empty after trimming.\<close>

fun valid_turn :: "jsval \<Rightarrow> bool" where
  "valid_turn (JObj kvs) =
     (case (map_of kvs ''role'', map_of kvs ''content'') of
        (Some (JStr r), Some (JStr c)) \<Rightarrow> (r = ''user'' \<or> r = ''assistant'') \<and> trim c \<noteq> []
      | _ \<Rightarrow> False)"
| "valid_turn v = False"

text \<open>The outcome \<open>w\<close> of the edge handler and the outcome \<open>s\<close> of the long-running
  process agree: the same exception, or two results with the same \<^verbatim>\<open>ok\<close>, \<^verbatim>\<open>status\<close> and
  \<^verbatim>\<open>error\<close>, the text of \<open>w\<close> being the text of \<open>s\<close> trimmed.\<close>

fun same_outcome ::
  "js_error + completion_result \<Rightarrow> js_error + completion_result \<Rightarrow> bool" where
  "same_outcome (Inl e) (Inl e') = (e = e')"
| "same_outcome (Inr w) (Inr s) =
     (ok w = ok s \<and> status w = status s \<and> error w = error s
      \<and> result_text w = map_option trim (result_text s))"
| "same_outcome (Inl e) (Inr s) = False"
| "same_outcome (Inr w) (Inl e) = False"

text \<open>Concrete environments, providers and values for the examples.\<close>

definition env_without_key :: environment where
  "env_without_key = \<lparr>OPENAI_API_KEY = None, OPENAI_MODEL = None, CCD_AI_OPENAI_MODEL = None\<rparr>"

definition env_with_key :: environment where
  "env_with_key =
     \<lparr>OPENAI_API_KEY = Some ''sk-test'', OPENAI_MODEL = Some ''gpt-4.1'',
      CCD_AI_OPENAI_MODEL = Some ''gpt-4.1''\<rparr>"

definition chat_answer :: "string \<Rightarrow> jsval" where
  "chat_answer t = JObj [(''choices'', JArr [JObj [(''message'', JObj [(''content'', JStr t)])]])]"

definition provider_error :: "string \<Rightarrow> jsval" where
  "provider_error m = JObj [(''error'', JObj [(''message'', JStr m)])]"

text \<open>A provider that answers the primary endpoint with \<open>r1\<close> and every other request
  with \<open>r2\<close>.\<close>

definition provider_of :: "http_response \<Rightarrow> http_response \<Rightarrow> provider" where
  "provider_of r1 r2 req =
     (if url req = ''https://api.openai.com/v1/responses'' then Some r1 else Some r2)"

text \<open>A provider that answers the primary endpoint with \<open>r1\<close> and cannot be reached
  on any other.\<close>

definition provider_primary_only :: "http_response \<Rightarrow> provider" where
  "provider_primary_only r1 req =
     (if url req = ''https://api.openai.com/v1/responses'' then Some r1 else None)"



text \<open>A provider that cannot be reached: every \<^verbatim>\<open>fetch\<close> rejects.\<close>

definition provider_down :: provider where
  "provider_down req = None"

text \<open>Provider responses: failures with an error message, an answer of the secondary
  protocol, and successes of the primary protocol with no text and with an aggregated
  text.\<close>

definition resp_500 :: http_response where
  "resp_500 = \<lparr>response_status = 500, response_data = provider_error ''boom''\<rparr>"

definition resp_404 :: http_response where
  "resp_404 = \<lparr>response_status = 404, response_data = provider_error ''Unknown endpoint''\<rparr>"

definition resp_401 :: http_response where
  "resp_401 = \<lparr>response_status = 401, response_data = provider_error ''Bad key''\<rparr>"

definition resp_chat_ok :: http_response where
  "resp_chat_ok = \<lparr>response_status = 200, response_data = chat_answer ''Hi there''\<rparr>"

definition resp_empty :: http_response where
  "resp_empty = \<lparr>response_status = 200, response_data = JObj []\<rparr>"

definition resp_hello :: http_response where
  "resp_hello = \<lparr>response_status = 200, response_data = JObj [(''output_text'', JStr '' Hello '')]\<rparr>"

text \<open>The value of \<^verbatim>\<open>{ "toString": 1 }\<close>, which no conversion to a string accepts, and a
  provider error whose message is that value.\<close>

definition unprintable :: jsval where
  "unprintable = JObj [(''toString'', JNum ''1'')]"

definition resp_404_unprintable :: http_response where
  "resp_404_unprintable =
     \<lparr>response_status = 404,
      response_data = JObj [(''error'', JObj [(''message'', unprintable)])]\<rparr>"

definition user_turn :: "string \<Rightarrow> string \<Rightarrow> jsval" where
  "user_turn r c = JObj [(''role'', JStr r), (''content'', JStr c)]"





section \<open>Strings\<close>

lemma all_dropWhile: "(\<forall>x\<in>set (dropWhile P xs). P x) \<longleftrightarrow> (\<forall>x\<in>set xs. P x)"
proof
  assume a: "\<forall>x\<in>set (dropWhile P xs). P x"
  have "dropWhile P xs = []"
  proof (rule ccontr)
    assume n: "dropWhile P xs \<noteq> []"
    then have "\<not> P (hd (dropWhile P xs))" by (rule hd_dropWhile)
    moreover have "hd (dropWhile P xs) \<in> set (dropWhile P xs)" using n by simp
    ultimately show False using a by blast
  qed
  then show "\<forall>x\<in>set xs. P x" by simp
next
  assume "\<forall>x\<in>set xs. P x"
  then show "\<forall>x\<in>set (dropWhile P xs). P x" by (meson set_dropWhileD)
qed

lemma trim_Nil_iff: "trim s = [] \<longleftrightarrow> (\<forall>c\<in>set s. is_space c)"
  by (simp add: trim_def all_dropWhile)

lemma trim_Nil [simp]: "trim [] = []"
  by (simp add: trim_def)

lemma trim_hd:
  assumes "trim s \<noteq> []"
  shows "\<not> is_space (hd (trim s))"
proof -
  let ?u = "dropWhile is_space s"
  from assms have u: "?u \<noteq> []" by (auto simp: trim_def dest: set_dropWhileD)
  then have nh: "\<not> is_space (hd ?u)" by (rule hd_dropWhile)
  have d: "dropWhile is_space (rev ?u) \<noteq> []" using assms by (simp add: trim_def)
  have "hd (trim s) = last (dropWhile is_space (rev ?u))"
    using d by (simp add: trim_def hd_rev)
  also have "\<dots> = last (rev ?u)"
    by (rule dropWhile_last [where x = "hd ?u"]) (use u nh in simp_all)
  also have "\<dots> = hd ?u" using u by (simp add: last_rev)
  finally show ?thesis using nh by simp
qed

lemma trim_last:
  assumes "trim s \<noteq> []"
  shows "\<not> is_space (last (trim s))"
proof -
  let ?d = "dropWhile is_space (rev (dropWhile is_space s))"
  from assms have d: "?d \<noteq> []" by (simp add: trim_def)
  then have "\<not> is_space (hd ?d)" by (rule hd_dropWhile)
  moreover have "last (trim s) = hd ?d" using d by (simp add: trim_def last_rev)
  ultimately show ?thesis by simp
qed

lemma trim_fixed:
  assumes "t \<noteq> []" "\<not> is_space (hd t)" "\<not> is_space (last t)"
  shows "trim t = t"
proof -
  have 1: "dropWhile is_space t = t" using assms by (simp add: dropWhile_eq_self_iff)
  have "hd (rev t) = last t" using assms by (simp add: hd_rev)
  then have 2: "dropWhile is_space (rev t) = rev t"
    using assms by (simp add: dropWhile_eq_self_iff)
  show ?thesis by (simp add: trim_def 1 2)
qed

lemma trim_idem: "trim (trim s) = trim s"
proof (cases "trim s = []")
  case True
  then show ?thesis by simp
next
  case False
  then show ?thesis by (intro trim_fixed trim_hd trim_last)
qed

lemma trim_take_nonempty:
  assumes "trim s \<noteq> []" "0 < n"
  shows "trim (take n (trim s)) \<noteq> []"
proof -
  have "hd (trim s) \<in> set (take n (trim s))"
    using assms by (cases "trim s"; cases n) simp_all
  moreover have "\<not> is_space (hd (trim s))" using assms(1) by (rule trim_hd)
  ultimately show ?thesis unfolding trim_Nil_iff by blast
qed

section \<open>The history sanitizer\<close>

lemma history_loop_eq: "history_loop safe items = safe @ List.map_filter history_item items"
  by (induction items arbitrary: safe) (auto split: option.splits)

lemma history_item_valid: "(history_item item = None) = (\<not> valid_turn item)"
  by (cases item) (auto simp: history_item_def split: option.splits jsval.splits)

lemma history_item_Some:
  assumes "history_item item = Some t"
  shows "getprop item ''role'' = JStr (role t)
         \<and> (role t = ''user'' \<or> role t = ''assistant'')
         \<and> (\<exists>c. getprop item ''content'' = JStr c \<and> trim c \<noteq> []
                  \<and> content t = take 4000 (trim c))"
  using assms
  by (auto simp: history_item_def slice_to_def split: if_splits jsval.splits)

lemma history_item_content:
  assumes "history_item item = Some t"
  shows "content t \<noteq> [] \<and> trim (content t) \<noteq> [] \<and> \<not> is_space (hd (content t))
         \<and> length (content t) \<le> 4000"
proof -
  from history_item_Some [OF assms] obtain c where
    c: "trim c \<noteq> []" "content t = take 4000 (trim c)" by blast
  have "trim (content t) \<noteq> []" using c trim_take_nonempty [of c 4000] by simp
  moreover have "content t \<noteq> []" using c by simp
  moreover have "hd (content t) = hd (trim c)" using c by (cases "trim c") simp_all
  moreover have "\<not> is_space (hd (trim c))" using c(1) by (rule trim_hd)
  moreover have "length (content t) \<le> 4000" using c by simp
  ultimately show ?thesis by simp
qed

lemma set_slice_last: "set (slice_last n xs) \<subseteq> set xs"
  by (simp add: slice_last_def set_drop_subset)

lemma normalizeHistory_array:
  "normalizeHistory (JArr items) = slice_last 24 (List.map_filter history_item items)"
  by (simp add: normalizeHistory_def history_loop_eq)

lemma normalizeHistory_not_array: "\<not> isArray history \<Longrightarrow> normalizeHistory history = []"
  by (cases history) (simp_all add: normalizeHistory_def)

lemma normalizeHistory_length: "length (normalizeHistory history) \<le> 24"
  by (cases history) (simp_all add: normalizeHistory_def slice_last_def)

lemma normalizeHistory_member:
  assumes "t \<in> set (normalizeHistory history)"
  shows "\<exists>item. history_item item = Some t"
proof (cases history)
  case (JArr items)
  with assms have "t \<in> set (List.map_filter history_item items)"
    using set_slice_last [of 24 "List.map_filter history_item items"]
    by (auto simp: normalizeHistory_array)
  then show ?thesis by (auto simp: List.map_filter_def)
qed (use assms in \<open>simp_all add: normalizeHistory_def\<close>)

lemma length_map_filter_valid:
  "length (List.map_filter history_item items) = length (filter valid_turn items)"
  by (induction items) (auto simp: history_item_valid [symmetric] split: option.splits)

lemma dropWhile_spaces:
  "dropWhile is_space (replicate n (CHR '' '') @ ys) = dropWhile is_space ys"
  by (induction n) (simp_all add: is_space_def)

lemma trim_a_spaces: "trim (CHR ''a'' # replicate 3999 (CHR '' '')) = ''a''"
  by (simp add: trim_def dropWhile_spaces is_space_def)

lemma trim_a_spaces_b:
  "trim (CHR ''a'' # replicate 4000 (CHR '' '') @ ''b'') = CHR ''a'' # replicate 4000 (CHR '' '') @ ''b''"
  by (simp add: trim_def is_space_def)

lemma take_a_spaces_b:
  "take 4000 (CHR ''a'' # replicate 4000 (CHR '' '') @ ''b'') = CHR ''a'' # replicate 3999 (CHR '' '')"
  by simp

lemma history_item_hi:
  "history_item (user_turn ''user'' '' hi '') = Some \<lparr>role = ''user'', content = ''hi''\<rparr>"
  by (simp add: history_item_def user_turn_def trim_def is_space_def slice_to_def)

text \<open>An example: the elements that fail validation are dropped, the others keep their
  order.\<close>

lemma normalizeHistory_example:
  "normalizeHistory (JArr [user_turn ''assistant'' ''one'', JNull, user_turn ''system'' ''x'',
                           JStr ''y'', user_turn ''user'' ''  '', user_turn ''user'' '' two''])
   = [\<lparr>role = ''assistant'', content = ''one''\<rparr>, \<lparr>role = ''user'', content = ''two''\<rparr>]"
  by (simp add: normalizeHistory_def history_item_def user_turn_def trim_def is_space_def
      slice_to_def slice_last_def)

text \<open>
  Claim C5, as the code has it. The claim says that the content of every sanitized
  element is a trimmed string. The code trims first and cuts to 4000 characters after,
  and the cut can end inside a run of white space: the content \<^verbatim>\<open>a\<close>, 4000 spaces, \<^verbatim>\<open>b\<close>
  is kept as \<^verbatim>\<open>a\<close> followed by 3999 spaces, which is not its own trimmed form.
\<close>

theorem normalizeHistory_content_not_trimmed:
  "normalizeHistory (JArr [user_turn ''user'' (CHR ''a'' # replicate 4000 (CHR '' '') @ ''b'')])
     = [\<lparr>role = ''user'', content = CHR ''a'' # replicate 3999 (CHR '' '')\<rparr>]
   \<and> trim (CHR ''a'' # replicate 3999 (CHR '' '')) \<noteq> CHR ''a'' # replicate 3999 (CHR '' '')"
proof -
  have "history_item (user_turn ''user'' (CHR ''a'' # replicate 4000 (CHR '' '') @ ''b''))
        = Some \<lparr>role = ''user'', content = CHR ''a'' # replicate 3999 (CHR '' '')\<rparr>"
    unfolding history_item_def user_turn_def slice_to_def
    by (simp add: trim_a_spaces_b take_a_spaces_b)
  then show ?thesis
    by (simp add: normalizeHistory_def slice_last_def trim_a_spaces)
qed

text \<open>
  Claim C5, amended. For every value passed as history, the sanitized result has at most
  24 elements; every element has role \<^verbatim>\<open>user\<close> or \<^verbatim>\<open>assistant\<close> and a content that is not
  empty, is not empty after trimming, does not begin with white space and has at most
  4000 characters; a history that is not an array gives the empty sequence. For an
  array, the result is the last 24 of the elements that survive, in their original
  order, so exactly 24 when more than 24 elements are valid. An element survives exactly
  when it is valid (\<open>valid_turn\<close>), otherwise it is dropped without error; a surviving
  element keeps its role, and its content is the first 4000 characters of the trimmed
  original (so it may end in white space where the cut falls).
\<close>

theorem normalizeHistory_sanitized:
  "length (normalizeHistory history) \<le> 24
   \<and> (\<forall>t\<in>set (normalizeHistory history).
         (role t = ''user'' \<or> role t = ''assistant'') \<and> content t \<noteq> []
         \<and> trim (content t) \<noteq> [] \<and> \<not> is_space (hd (content t))
         \<and> length (content t) \<le> 4000)
   \<and> (\<not> isArray history \<longrightarrow> normalizeHistory history = [])
   \<and> (\<forall>items. history = JArr items \<longrightarrow>
         normalizeHistory history =
           drop (length (List.map_filter history_item items) - 24)
                (List.map_filter history_item items))
   \<and> (\<forall>items. history = JArr items \<and> 24 < length (filter valid_turn items) \<longrightarrow>
         length (normalizeHistory history) = 24)
   \<and> (\<forall>item. (history_item item = None) = (\<not> valid_turn item))
   \<and> (\<forall>item t. history_item item = Some t \<longrightarrow>
         getprop item ''role'' = JStr (role t)
         \<and> (\<exists>c. getprop item ''content'' = JStr c \<and> content t = take 4000 (trim c)))"
proof (intro conjI allI impI ballI)
  show "length (normalizeHistory history) \<le> 24" by (rule normalizeHistory_length)
next
  fix t assume t: "t \<in> set (normalizeHistory history)"
  then obtain item where i: "history_item item = Some t"
    using normalizeHistory_member by blast
  from history_item_Some [OF i] show "role t = ''user'' \<or> role t = ''assistant''" by simp
  from history_item_content [OF i]
  show "content t \<noteq> []" "trim (content t) \<noteq> []" "\<not> is_space (hd (content t))"
    "length (content t) \<le> 4000" by simp_all
next
  assume "\<not> isArray history"
  then show "normalizeHistory history = []" by (rule normalizeHistory_not_array)
next
  fix items assume "history = JArr items"
  then show "normalizeHistory history =
      drop (length (List.map_filter history_item items) - 24) (List.map_filter history_item items)"
    by (simp add: normalizeHistory_array slice_last_def)
next
  fix items assume "history = JArr items \<and> 24 < length (filter valid_turn items)"
  then show "length (normalizeHistory history) = 24"
    by (simp add: normalizeHistory_array slice_last_def length_map_filter_valid)
next
  fix item show "(history_item item = None) = (\<not> valid_turn item)"
    by (rule history_item_valid)
next
  fix item t assume i: "history_item item = Some t"
  from history_item_Some [OF i] show "getprop item ''role'' = JStr (role t)" by simp
  from history_item_Some [OF i]
  show "\<exists>c. getprop item ''content'' = JStr c \<and> content t = take 4000 (trim c)" by blast
qed

theorem normalizeHistory_sanitized_witness:
  "24 < length (filter valid_turn (replicate 30 (user_turn ''user'' '' hi '')))
   \<and> length (normalizeHistory (JArr (replicate 30 (user_turn ''user'' '' hi '')))) = 24
   \<and> \<not> isArray (JStr ''x'') \<and> normalizeHistory (JStr ''x'') = []
   \<and> \<lparr>role = ''user'', content = ''hi''\<rparr> \<in> set (normalizeHistory (JArr [user_turn ''user'' '' hi '']))
   \<and> length (content \<lparr>role = ''user'', content = ''hi''\<rparr>) \<le> 4000
   \<and> history_item (user_turn ''user'' '' hi '') = Some \<lparr>role = ''user'', content = ''hi''\<rparr>
   \<and> getprop (user_turn ''user'' '' hi '') ''role'' = JStr ''user''"
proof -
  have v: "valid_turn (user_turn ''user'' '' hi '')"
    by (simp add: user_turn_def trim_def is_space_def)
  have n: "24 < length (filter valid_turn (replicate 30 (user_turn ''user'' '' hi '')))"
    by (simp add: v)
  have m: "\<lparr>role = ''user'', content = ''hi''\<rparr>
           \<in> set (normalizeHistory (JArr [user_turn ''user'' '' hi '']))"
    by (simp add: normalizeHistory_def history_item_hi slice_last_def)
  let ?u = "user_turn ''user'' '' hi ''"
  have a: "length (normalizeHistory (JArr (replicate 30 ?u))) = 24"
    using n normalizeHistory_sanitized [of "JArr (replicate 30 ?u)"] by blast
  have b: "normalizeHistory (JStr ''x'') = []"
    using normalizeHistory_sanitized [of "JStr ''x''"] by simp
  have c: "length (content \<lparr>role = ''user'', content = ''hi''\<rparr>) \<le> 4000"
    using m normalizeHistory_sanitized [of "JArr [?u]"] by blast
  have d: "getprop ?u ''role'' = JStr ''user''"
    using history_item_hi normalizeHistory_sanitized [of "JArr [?u]"] by fastforce
  show ?thesis
    using n a b c d m history_item_hi by simp
qed

section \<open>The credential check\<close>

lemma env_or_unset: "v = None \<or> v = Some [] \<Longrightarrow> env_or v d = d"
  by (auto simp: env_or_def)

lemma env_or_set: "v = Some s \<Longrightarrow> s \<noteq> [] \<Longrightarrow> env_or v d = s"
  by (simp add: env_or_def)

text \<open>
  Claim C8. With no credential configured (the variable unset or empty), each strategy
  returns \<^verbatim>\<open>ok: false\<close>, status 500 and a configuration error, and sends nothing to the
  provider, whatever the input, the history and the telemetry are. The check comes before
  the validation of the input, so an empty input gives 500 as well, not 400.
\<close>

theorem no_credential_500:
  assumes "OPENAI_API_KEY env = None \<or> OPENAI_API_KEY env = Some []"
  shows "worker_callOpenAI fetch env input history telemetry =
           ([], Inr \<lparr>ok = False, status = 500, result_text = None,
                     error = Some (JStr ''Missing OPENAI_API_KEY.''), model = None\<rparr>)
         \<and> server_callOpenAI fetch env input history telemetry =
           ([], Inr \<lparr>ok = False, status = 500, result_text = None,
                     error = Some (JStr ''Missing OPENAI_API_KEY in environment.''),
                     model = None\<rparr>)"
proof -
  have k: "env_or (OPENAI_API_KEY env) [] = []"
    using assms by (rule env_or_unset)
  show ?thesis
    by (simp add: worker_callOpenAI_def server_callOpenAI_def k failure_def)
qed

theorem no_credential_500_witness:
  "OPENAI_API_KEY env_without_key = None
   \<and> userInput (JStr ''  '') = Inr []
   \<and> worker_callOpenAI provider_down env_without_key (JStr ''  '') JUndefined JUndefined =
       ([], Inr \<lparr>ok = False, status = 500, result_text = None,
                 error = Some (JStr ''Missing OPENAI_API_KEY.''), model = None\<rparr>)
   \<and> server_callOpenAI provider_down env_without_key (JStr ''  '') JUndefined JUndefined =
       ([], Inr \<lparr>ok = False, status = 500, result_text = None,
                 error = Some (JStr ''Missing OPENAI_API_KEY in environment.''),
                 model = None\<rparr>)"
proof -
  have h: "OPENAI_API_KEY env_without_key = None \<or> OPENAI_API_KEY env_without_key = Some []"
    by (simp add: env_without_key_def)
  have u: "userInput (JStr ''  '') = Inr []"
    by (simp add: userInput_def or_js_def slice_to_def trim_def is_space_def)
  show ?thesis
    using no_credential_500 [OF h, of provider_down "JStr ''  ''" JUndefined JUndefined] u
    by (simp add: env_without_key_def)
qed

section \<open>The system instruction\<close>

lemma serialize_elems_map: "serialize_elems gap ind xs = map (serialize gap ind) xs"
  by (induction xs) simp_all

lemma serialize_members_map:
  "serialize_members gap ind kvs =
     map (\<lambda>(k, v). quote k @ '':'' @ (if gap = [] then [] else '' '') @ serialize gap ind v)
         (filter (\<lambda>(k, v). v \<noteq> JUndefined) kvs)"
  by (induction kvs) auto

lemma telemetryJson_cases:
  "telemetryJson t =
     (case t of JArr xs \<Rightarrow> serialize ''  '' [] t | JObj kvs \<Rightarrow> serialize ''  '' [] t
      | _ \<Rightarrow> ''{}'')"
  by (cases t) (simp_all add: telemetryJson_def JSON_stringify_2_def)

lemma persona_text:
  "join '' '' systemParts =
     ''You are Star Chart AI, a helpful assistant embedded in a factory-floor telemetry dashboard called Star Chart Systems. Answer as a pragmatic operations/industrial engineer. Be concise and specific. If the user asks for data not in the telemetry snapshot, say what you can infer and what you would need to confirm.''"
  by (simp add: systemParts_def)

lemma quote_char_plain:
  "32 \<le> (of_char c :: nat) \<Longrightarrow> c \<noteq> DQ \<Longrightarrow> c \<noteq> BSL \<Longrightarrow> quote_char c = [c]"
  by (auto simp: quote_char_def)

lemma quote_char_control:
  assumes "(of_char c :: nat) < 32" "c \<noteq> CHR 0x08" "c \<noteq> CHR 0x09" "c \<noteq> NL" "c \<noteq> CHR 0x0C"
    "c \<noteq> CHR 0x0D"
  shows "quote_char c = [BSL, CHR ''u'', CHR ''0'', CHR ''0'',
                         ''0123456789abcdef'' ! ((of_char c :: nat) div 16 mod 16),
                         ''0123456789abcdef'' ! ((of_char c :: nat) mod 16)]"
proof -
  have "(of_char DQ :: nat) = 34" "(of_char BSL :: nat) = 92" by simp_all
  then have "c \<noteq> DQ" "c \<noteq> BSL" using assms(1) by auto
  then show ?thesis
    unfolding quote_char_def hex_digit_def using assms by (simp only: if_False if_True)
qed

lemma quote_char_special:
  "quote_char (CHR 0x08) = [BSL, CHR ''b'']" "quote_char (CHR 0x09) = [BSL, CHR ''t'']"
  "quote_char NL = [BSL, CHR ''n'']" "quote_char (CHR 0x0C) = [BSL, CHR ''f'']"
  "quote_char (CHR 0x0D) = [BSL, CHR ''r'']" "quote_char DQ = [BSL, DQ]"
  "quote_char BSL = [BSL, BSL]"
  by (simp_all add: quote_char_def)

lemma layout_object:
  "serialize ''  '' ind (JObj kvs) =
     (let ms = map (\<lambda>(k, v). quote k @ '': '' @ serialize ''  '' (ind @ ''  '') v)
                   (filter (\<lambda>(k, v). v \<noteq> JUndefined) kvs)
      in if ms = [] then ''{}''
         else ''{'' @ [NL] @ ind @ ''  '' @ join ('','' @ [NL] @ ind @ ''  '') ms
              @ [NL] @ ind @ ''}'')"
  by (simp add: wrap_def serialize_members_map Let_def)

lemma layout_array:
  "serialize ''  '' ind (JArr xs) =
     (let es = map (serialize ''  '' (ind @ ''  '')) xs
      in if es = [] then ''[]''
         else ''['' @ [NL] @ ind @ ''  '' @ join ('','' @ [NL] @ ind @ ''  '') es
              @ [NL] @ ind @ '']'')"
  by (simp add: wrap_def serialize_elems_map Let_def)

lemma stringify_example:
  "serialize ''  '' [] (JObj [(''line1'', JObj [(''oee'', JNum ''0.82'')])])
   = ''{'' @ [NL] @ ''  '' @ [DQ] @ ''line1'' @ [DQ] @ '': {'' @ [NL]
     @ ''    '' @ [DQ] @ ''oee'' @ [DQ] @ '': 0.82'' @ [NL] @ ''  }'' @ [NL] @ ''}''"
  by (simp add: wrap_def quote_def quote_char_def number_json_def)

lemma stringify_example_mixed:
  "serialize ''  '' []
     (JObj [(''line'', JArr [JNull, JBool False, JNum ''Infinity'', JNum ''0.82'',
                            JStr [CHR ''a'', DQ, BSL, NL, CHR 0x1F], JArr [], JObj []]),
            (''gone'', JUndefined)])
   = ''{'' @ [NL] @ ''  '' @ [DQ] @ ''line'' @ [DQ] @ '': ['' @ [NL]
     @ ''    null,'' @ [NL] @ ''    false,'' @ [NL] @ ''    null,'' @ [NL] @ ''    0.82,'' @ [NL]
     @ ''    '' @ [DQ] @ ''a'' @ [BSL, DQ, BSL, BSL, BSL] @ ''n'' @ [BSL] @ ''u001f'' @ [DQ]
     @ '','' @ [NL] @ ''    [],'' @ [NL] @ ''    {}'' @ [NL] @ ''  ]'' @ [NL] @ ''}''"
  by (simp add: wrap_def quote_def quote_char_def hex_digit_def number_json_def)

text \<open>
  Claim C9. For every telemetry value the system instruction is the persona text (the
  three sentences joined by spaces), a blank line, the label line
  \<^verbatim>\<open>Telemetry snapshot (JSON):\<close> and then the serialized telemetry: the text \<^verbatim>\<open>{}\<close> when the
  telemetry is absent, \<^verbatim>\<open>null\<close>, a boolean, a number or a string, and
  \<^verbatim>\<open>JSON.stringify(telemetry, null, 2)\<close> when it is an object or an array. That text is
  indented JSON: an object or array with members puts each member on a line of its own,
  two spaces deeper than the line of its closing bracket, the members separated by commas
  and an object member written as the quoted key, a colon, a space and the value; an
  empty object or array is \<^verbatim>\<open>{}\<close> or \<^verbatim>\<open>[]\<close>; an absent member is left out of an object; a
  number is its own text, or \<^verbatim>\<open>null\<close> when it is not finite; a string is quoted with the
  escapes of JSON.
\<close>

theorem systemPrompt_telemetry:
  "systemPrompt telemetry =
     ''You are Star Chart AI, a helpful assistant embedded in a factory-floor telemetry dashboard called Star Chart Systems. Answer as a pragmatic operations/industrial engineer. Be concise and specific. If the user asks for data not in the telemetry snapshot, say what you can infer and what you would need to confirm.''
     @ [NL] @ [NL] @ ''Telemetry snapshot (JSON):'' @ [NL]
     @ (case telemetry of
          JArr xs \<Rightarrow> serialize ''  '' [] telemetry
        | JObj kvs \<Rightarrow> serialize ''  '' [] telemetry
        | _ \<Rightarrow> ''{}'')
   \<and> serialize ''  '' ind (JObj kvs) =
       (let ms = map (\<lambda>(k, v). quote k @ '': '' @ serialize ''  '' (ind @ ''  '') v)
                     (filter (\<lambda>(k, v). v \<noteq> JUndefined) kvs)
        in if ms = [] then ''{}''
           else ''{'' @ [NL] @ ind @ ''  '' @ join ('','' @ [NL] @ ind @ ''  '') ms
                @ [NL] @ ind @ ''}'')
   \<and> serialize ''  '' ind (JArr xs) =
       (let es = map (serialize ''  '' (ind @ ''  '')) xs
        in if es = [] then ''[]''
           else ''['' @ [NL] @ ind @ ''  '' @ join ('','' @ [NL] @ ind @ ''  '') es
                @ [NL] @ ind @ '']'')
   \<and> serialize ''  '' ind (JStr s) = [DQ] @ concat (map quote_char s) @ [DQ]
   \<and> serialize ''  '' ind (JNum t) =
       (if t = ''Infinity'' \<or> t = ''-Infinity'' \<or> t = ''NaN'' then ''null'' else t)
   \<and> serialize ''  '' ind (JBool b) = (if b then ''true'' else ''false'')
   \<and> serialize ''  '' ind JNull = ''null''
   \<and> serialize ''  '' ind JUndefined = ''null''
   \<and> quote k = [DQ] @ concat (map quote_char k) @ [DQ]
   \<and> quote_char (CHR 0x08) = [BSL, CHR ''b''] \<and> quote_char (CHR 0x09) = [BSL, CHR ''t'']
   \<and> quote_char NL = [BSL, CHR ''n''] \<and> quote_char (CHR 0x0C) = [BSL, CHR ''f'']
   \<and> quote_char (CHR 0x0D) = [BSL, CHR ''r''] \<and> quote_char DQ = [BSL, DQ]
   \<and> quote_char BSL = [BSL, BSL]
   \<and> (\<forall>c. 32 \<le> (of_char c :: nat) \<and> c \<noteq> DQ \<and> c \<noteq> BSL \<longrightarrow> quote_char c = [c])
   \<and> (\<forall>c. (of_char c :: nat) < 32 \<and> c \<noteq> CHR 0x08 \<and> c \<noteq> CHR 0x09 \<and> c \<noteq> NL
            \<and> c \<noteq> CHR 0x0C \<and> c \<noteq> CHR 0x0D \<longrightarrow>
          quote_char c = [BSL, CHR ''u'', CHR ''0'', CHR ''0'',
                          ''0123456789abcdef'' ! ((of_char c :: nat) div 16 mod 16),
                          ''0123456789abcdef'' ! ((of_char c :: nat) mod 16)])"
proof -
  have 1: "systemPrompt telemetry =
     ''You are Star Chart AI, a helpful assistant embedded in a factory-floor telemetry dashboard called Star Chart Systems. Answer as a pragmatic operations/industrial engineer. Be concise and specific. If the user asks for data not in the telemetry snapshot, say what you can infer and what you would need to confirm.''
     @ [NL] @ [NL] @ ''Telemetry snapshot (JSON):'' @ [NL]
     @ (case telemetry of
          JArr xs \<Rightarrow> serialize ''  '' [] telemetry
        | JObj kvs \<Rightarrow> serialize ''  '' [] telemetry
        | _ \<Rightarrow> ''{}'')"
    unfolding systemPrompt_def persona_text telemetryJson_cases by simp
  have 2: "serialize ''  '' ind (JStr s) = [DQ] @ concat (map quote_char s) @ [DQ]"
    by (simp add: quote_def)
  have 3: "serialize ''  '' ind (JNum t) =
       (if t = ''Infinity'' \<or> t = ''-Infinity'' \<or> t = ''NaN'' then ''null'' else t)"
    by (simp add: number_json_def)
  have 4: "serialize ''  '' ind (JBool b) = (if b then ''true'' else ''false'')"
    "serialize ''  '' ind JNull = ''null''" "serialize ''  '' ind JUndefined = ''null''"
    by simp_all
  have 5: "quote k = [DQ] @ concat (map quote_char k) @ [DQ]" by (simp add: quote_def)
  have 6: "\<forall>c. 32 \<le> (of_char c :: nat) \<and> c \<noteq> DQ \<and> c \<noteq> BSL \<longrightarrow> quote_char c = [c]"
    using quote_char_plain by blast
  have 7: "\<forall>c. (of_char c :: nat) < 32 \<and> c \<noteq> CHR 0x08 \<and> c \<noteq> CHR 0x09 \<and> c \<noteq> NL
            \<and> c \<noteq> CHR 0x0C \<and> c \<noteq> CHR 0x0D \<longrightarrow>
          quote_char c = [BSL, CHR ''u'', CHR ''0'', CHR ''0'',
                          ''0123456789abcdef'' ! ((of_char c :: nat) div 16 mod 16),
                          ''0123456789abcdef'' ! ((of_char c :: nat) mod 16)]"
    using quote_char_control by blast
  from 1 layout_object [of ind kvs] layout_array [of ind xs] 2 3 4 5 quote_char_special 6 7
  show ?thesis by blast
qed

text \<open>The example of the specification: the telemetry \<^verbatim>\<open>{ "line1": { "oee": 0.82 } }\<close> is
  in the instruction as indented JSON. A second telemetry has an array, the scalars, a
  number that is not finite, a string with escapes, empty containers and an absent
  member. A telemetry that is absent, \<^verbatim>\<open>null\<close> or a string gives \<^verbatim>\<open>{}\<close>.\<close>

theorem systemPrompt_telemetry_witness:
  "systemPrompt (JObj [(''line1'', JObj [(''oee'', JNum ''0.82'')])]) =
     ''You are Star Chart AI, a helpful assistant embedded in a factory-floor telemetry dashboard called Star Chart Systems. Answer as a pragmatic operations/industrial engineer. Be concise and specific. If the user asks for data not in the telemetry snapshot, say what you can infer and what you would need to confirm.''
     @ [NL] @ [NL] @ ''Telemetry snapshot (JSON):'' @ [NL]
     @ ''{'' @ [NL] @ ''  '' @ [DQ] @ ''line1'' @ [DQ] @ '': {'' @ [NL]
     @ ''    '' @ [DQ] @ ''oee'' @ [DQ] @ '': 0.82'' @ [NL] @ ''  }'' @ [NL] @ ''}''
   \<and> systemPrompt
        (JObj [(''line'', JArr [JNull, JBool False, JNum ''Infinity'', JNum ''0.82'',
                               JStr [CHR ''a'', DQ, BSL, NL, CHR 0x1F], JArr [], JObj []]),
               (''gone'', JUndefined)]) =
     ''You are Star Chart AI, a helpful assistant embedded in a factory-floor telemetry dashboard called Star Chart Systems. Answer as a pragmatic operations/industrial engineer. Be concise and specific. If the user asks for data not in the telemetry snapshot, say what you can infer and what you would need to confirm.''
     @ [NL] @ [NL] @ ''Telemetry snapshot (JSON):'' @ [NL]
     @ ''{'' @ [NL] @ ''  '' @ [DQ] @ ''line'' @ [DQ] @ '': ['' @ [NL]
     @ ''    null,'' @ [NL] @ ''    false,'' @ [NL] @ ''    null,'' @ [NL] @ ''    0.82,'' @ [NL]
     @ ''    '' @ [DQ] @ ''a'' @ [BSL, DQ, BSL, BSL, BSL] @ ''n'' @ [BSL] @ ''u001f'' @ [DQ]
     @ '','' @ [NL] @ ''    [],'' @ [NL] @ ''    {}'' @ [NL] @ ''  ]'' @ [NL] @ ''}''
   \<and> systemPrompt JUndefined =
     ''You are Star Chart AI, a helpful assistant embedded in a factory-floor telemetry dashboard called Star Chart Systems. Answer as a pragmatic operations/industrial engineer. Be concise and specific. If the user asks for data not in the telemetry snapshot, say what you can infer and what you would need to confirm.''
     @ [NL] @ [NL] @ ''Telemetry snapshot (JSON):'' @ [NL] @ ''{}''
   \<and> systemPrompt JNull = systemPrompt JUndefined
   \<and> systemPrompt (JStr ''hot'') = systemPrompt JUndefined
   \<and> systemPrompt (JNum ''7'') = systemPrompt JUndefined
   \<and> systemPrompt (JBool True) = systemPrompt JUndefined
   \<and> systemPrompt (JObj []) = systemPrompt JUndefined"
proof -
  note a = systemPrompt_telemetry [THEN conjunct1]
  have 1: "systemPrompt (JObj [(''line1'', JObj [(''oee'', JNum ''0.82'')])]) =
     ''You are Star Chart AI, a helpful assistant embedded in a factory-floor telemetry dashboard called Star Chart Systems. Answer as a pragmatic operations/industrial engineer. Be concise and specific. If the user asks for data not in the telemetry snapshot, say what you can infer and what you would need to confirm.''
     @ [NL] @ [NL] @ ''Telemetry snapshot (JSON):'' @ [NL]
     @ ''{'' @ [NL] @ ''  '' @ [DQ] @ ''line1'' @ [DQ] @ '': {'' @ [NL]
     @ ''    '' @ [DQ] @ ''oee'' @ [DQ] @ '': 0.82'' @ [NL] @ ''  }'' @ [NL] @ ''}''"
    unfolding a [of "JObj [(''line1'', JObj [(''oee'', JNum ''0.82'')])]"]
    by (simp only: jsval.case stringify_example)
  have 2: "systemPrompt
        (JObj [(''line'', JArr [JNull, JBool False, JNum ''Infinity'', JNum ''0.82'',
                               JStr [CHR ''a'', DQ, BSL, NL, CHR 0x1F], JArr [], JObj []]),
               (''gone'', JUndefined)]) =
     ''You are Star Chart AI, a helpful assistant embedded in a factory-floor telemetry dashboard called Star Chart Systems. Answer as a pragmatic operations/industrial engineer. Be concise and specific. If the user asks for data not in the telemetry snapshot, say what you can infer and what you would need to confirm.''
     @ [NL] @ [NL] @ ''Telemetry snapshot (JSON):'' @ [NL]
     @ ''{'' @ [NL] @ ''  '' @ [DQ] @ ''line'' @ [DQ] @ '': ['' @ [NL]
     @ ''    null,'' @ [NL] @ ''    false,'' @ [NL] @ ''    null,'' @ [NL] @ ''    0.82,'' @ [NL]
     @ ''    '' @ [DQ] @ ''a'' @ [BSL, DQ, BSL, BSL, BSL] @ ''n'' @ [BSL] @ ''u001f'' @ [DQ]
     @ '','' @ [NL] @ ''    [],'' @ [NL] @ ''    {}'' @ [NL] @ ''  ]'' @ [NL] @ ''}''"
    unfolding a [of "JObj [(''line'', JArr [JNull, JBool False, JNum ''Infinity'', JNum ''0.82'',
                               JStr [CHR ''a'', DQ, BSL, NL, CHR 0x1F], JArr [], JObj []]),
               (''gone'', JUndefined)]"]
    by (simp only: jsval.case stringify_example_mixed)
  have 3: "systemPrompt JUndefined =
     ''You are Star Chart AI, a helpful assistant embedded in a factory-floor telemetry dashboard called Star Chart Systems. Answer as a pragmatic operations/industrial engineer. Be concise and specific. If the user asks for data not in the telemetry snapshot, say what you can infer and what you would need to confirm.''
     @ [NL] @ [NL] @ ''Telemetry snapshot (JSON):'' @ [NL] @ ''{}''"
    unfolding a [of JUndefined] by (simp only: jsval.case)
  have 4: "systemPrompt JNull = systemPrompt JUndefined"
    "systemPrompt (JStr ''hot'') = systemPrompt JUndefined"
    "systemPrompt (JNum ''7'') = systemPrompt JUndefined"
    "systemPrompt (JBool True) = systemPrompt JUndefined"
    unfolding a [of JNull] a [of "JStr ''hot''"] a [of "JNum ''7''"] a [of "JBool True"]
      a [of JUndefined]
    by (simp_all only: jsval.case)
  have 5: "systemPrompt (JObj []) = systemPrompt JUndefined"
    unfolding a [of "JObj []"] a [of JUndefined] by (simp add: wrap_def)
  from 1 2 3 4 5 show ?thesis by blast
qed

section \<open>The user turn\<close>

lemma userInput_length: "userInput input = Inr ui \<Longrightarrow> length ui \<le> 4000"
  by (auto simp: userInput_def slice_to_def split: sum.splits)

lemma normalizeHistory_roles:
  "filter (\<lambda>m. role m \<noteq> ''system'') (normalizeHistory history) = normalizeHistory history"
proof -
  have "\<forall>t\<in>set (normalizeHistory history). role t \<noteq> ''system''"
    using normalizeHistory_member history_item_Some by fastforce
  then show ?thesis by simp
qed

lemma server_transcript_messages:
  "server_transcript (messages ui history telemetry)
   = join [NL] (map render_turn (normalizeHistory history) @ [''User: '' @ ui])"
  by (simp add: server_transcript_def messages_def normalizeHistory_roles render_turn_def)

lemma messages_cons:
  "messages ui history telemetry =
     \<lparr>role = ''system'', content = systemPrompt telemetry\<rparr>
     # normalizeHistory history @ [\<lparr>role = ''user'', content = ui\<rparr>]"
  by (simp add: messages_def)

lemma worker_sent:
  "fst (worker_callOpenAI fetch env input history telemetry) =
     (if env_or (OPENAI_API_KEY env) [] = [] then []
      else case userInput input of
             Inl e \<Rightarrow> []
           | Inr ui \<Rightarrow>
               if ui = [] then []
               else [responses_request (env_or (OPENAI_API_KEY env) []) (worker_model env)
                       (systemPrompt telemetry)
                       (join [NL] (map render_turn (normalizeHistory history)
                                   @ [''User: '' @ ui]))])"
  by (simp add: worker_callOpenAI_def worker_transcript_def Let_def split: option.splits sum.splits)

lemma server_sent:
  "fst (server_callOpenAI fetch env input history telemetry) =
     (if env_or (OPENAI_API_KEY env) [] = [] then []
      else case userInput input of
             Inl e \<Rightarrow> []
           | Inr ui \<Rightarrow>
               let p = responses_request (env_or (OPENAI_API_KEY env) []) (server_model env)
                         (systemPrompt telemetry)
                         (join [NL] (map render_turn (normalizeHistory history)
                                     @ [''User: '' @ ui]));
                   c = chat_request (env_or (OPENAI_API_KEY env) []) (server_model env)
                         (\<lparr>role = ''system'', content = systemPrompt telemetry\<rparr>
                          # normalizeHistory history
                          @ [\<lparr>role = ''user'', content = ui\<rparr>])
               in (case fetch p of
                     None \<Rightarrow> [p]
                   | Some response \<Rightarrow>
                       (case responses_read response of
                          Inl e \<Rightarrow> [p]
                        | Inr r \<Rightarrow>
                            if \<not> ok r \<and> status r \<in> {400, 404, 405, 415} then [p, c]
                            else [p])))"
  by (auto simp: server_callOpenAI_def tryResponsesApi_def tryChatCompletionsApi_def Let_def
      server_transcript_messages fallbackableStatuses_def messages_cons [symmetric]
      split: option.splits sum.splits prod.splits)

lemma userInput_hello: "userInput (JStr ''  hello '') = Inr ''hello''"
  by (simp add: userInput_def or_js_def trim_def is_space_def slice_to_def)

lemma userInput_long:
  "userInput (JStr (replicate 4100 (CHR ''a''))) = Inr (replicate 4000 (CHR ''a''))"
proof -
  have "trim (replicate 4100 (CHR ''a'')) = replicate 4100 (CHR ''a'')"
    by (rule trim_fixed) (simp_all add: is_space_def)
  then show ?thesis by (simp add: userInput_def or_js_def slice_to_def)
qed

lemma userInput_unprintable: "userInput unprintable = Inl TypeError"
  by (simp add: userInput_def or_js_def unprintable_def)

lemma userInput_unprintable_element:
  "userInput (JArr [JNum ''1'', unprintable]) = Inl TypeError"
  by (simp add: userInput_def or_js_def unprintable_def)

lemma userInput_array: "userInput (JArr [JStr ''a'', JNull, JNum ''2'']) = Inr ''a,,2''"
  by (simp add: userInput_def or_js_def trim_def is_space_def slice_to_def)

lemma normalizeHistory_one:
  "normalizeHistory (JArr [user_turn ''assistant'' '' one '']) =
     [\<lparr>role = ''assistant'', content = ''one''\<rparr>]"
  by (simp add: normalizeHistory_def history_item_def user_turn_def trim_def is_space_def
      slice_to_def slice_last_def)

lemma key_with: "OPENAI_API_KEY env_with_key = Some ''sk-test''"
  by (simp add: env_with_key_def)

lemma models_with:
  "worker_model env_with_key = ''gpt-4.1''" "server_model env_with_key = ''gpt-4.1''"
  by (simp_all add: worker_model_def server_model_def env_with_key_def env_or_def)

lemma env_or_with: "env_or (OPENAI_API_KEY env_with_key) [] = ''sk-test''"
  by (simp add: env_with_key_def env_or_def)

lemma url_responses [simp]:
  "url (responses_request k m i t) = ''https://api.openai.com/v1/responses''"
  by (simp add: responses_request_def)

lemma url_chat [simp]:
  "url (chat_request k m ms) = ''https://api.openai.com/v1/chat/completions''"
  by (simp add: chat_request_def)

lemma provider_of_primary [simp]:
  "provider_of r1 r2 (responses_request k m i t) = Some r1"
  by (simp add: provider_of_def)

lemma provider_of_secondary [simp]:
  "provider_of r1 r2 (chat_request k m ms) = Some r2"
  by (simp add: provider_of_def)

lemma error_detail_message: "m \<noteq> [] \<Longrightarrow> error_detail (provider_error m) = JStr m"
  by (simp add: error_detail_def provider_error_def or_js_def)

lemma responses_read_500: "responses_read resp_500 = Inr (failure 500 (JStr ''boom''))"
  by (simp add: responses_read_def resp_500_def response_ok_def error_detail_message)

lemma responses_read_404:
  "responses_read resp_404 = Inr (failure 404 (JStr ''Unknown endpoint''))"
  by (simp add: responses_read_def resp_404_def response_ok_def error_detail_message)

text \<open>
  Claim C10. In both variants the new user turn is \<^verbatim>\<open>String(input || "")\<close>, trimmed and
  cut to 4000 characters (\<open>userInput\<close>): a string is itself, a number its text, an object
  without a \<^verbatim>\<open>toString\<close> property of its own \<^verbatim>\<open>[object Object]\<close>; where the conversion
  throws, nothing is sent. The text has at most 4000 characters for every input. The
  edge handler sends nothing, or exactly one request, whose transcript is the rendered
  history followed by the line \<^verbatim>\<open>User: \<close> and that text. The long-running process sends
  nothing, or its primary request with the same transcript, followed when it falls back
  by the secondary request, whose messages are the system message, the history and the
  user message of that content.
\<close>

theorem userInput_capped:
  "userInput input =
     (case ToString (if truthy input then input else JStr []) of
        Inl e \<Rightarrow> Inl e
      | Inr s \<Rightarrow> Inr (take 4000 (trim s)))
   \<and> (\<forall>ui. userInput input = Inr ui \<longrightarrow> length ui \<le> 4000)
   \<and> ToString (JStr s) = Inr s
   \<and> ToString (JNum t) = Inr t
   \<and> ToString (JBool b) = Inr (if b then ''true'' else ''false'')
   \<and> ToString (JObj kvs) =
       (if ''toString'' \<in> set (map fst kvs) then Inl TypeError else Inr ''[object Object]'')
   \<and> fst (worker_callOpenAI fetch env input history telemetry) =
       (if env_or (OPENAI_API_KEY env) [] = [] then []
        else case userInput input of
               Inl e \<Rightarrow> []
             | Inr ui \<Rightarrow>
                 if ui = [] then []
                 else [responses_request (env_or (OPENAI_API_KEY env) []) (worker_model env)
                         (systemPrompt telemetry)
                         (join [NL] (map render_turn (normalizeHistory history)
                                     @ [''User: '' @ ui]))])
   \<and> fst (server_callOpenAI fetch env input history telemetry) =
       (if env_or (OPENAI_API_KEY env) [] = [] then []
        else case userInput input of
               Inl e \<Rightarrow> []
             | Inr ui \<Rightarrow>
                 let p = responses_request (env_or (OPENAI_API_KEY env) []) (server_model env)
                           (systemPrompt telemetry)
                           (join [NL] (map render_turn (normalizeHistory history)
                                       @ [''User: '' @ ui]));
                     c = chat_request (env_or (OPENAI_API_KEY env) []) (server_model env)
                           (\<lparr>role = ''system'', content = systemPrompt telemetry\<rparr>
                            # normalizeHistory history
                            @ [\<lparr>role = ''user'', content = ui\<rparr>])
                 in (case fetch p of
                       None \<Rightarrow> [p]
                     | Some response \<Rightarrow>
                         (case responses_read response of
                            Inl e \<Rightarrow> [p]
                          | Inr r \<Rightarrow>
                              if \<not> ok r \<and> status r \<in> {400, 404, 405, 415} then [p, c]
                              else [p])))
   \<and> responses_request k m i tr =
       \<lparr>url = ''https://api.openai.com/v1/responses'', authorization = ''Bearer '' @ k,
        json_body = JObj [(''model'', JStr m), (''instructions'', JStr i), (''input'', JStr tr),
                          (''temperature'', JNum ''0.4''), (''max_output_tokens'', JNum ''350'')]\<rparr>
   \<and> chat_request k m ms =
       \<lparr>url = ''https://api.openai.com/v1/chat/completions'', authorization = ''Bearer '' @ k,
        json_body =
          JObj [(''model'', JStr m),
                (''messages'',
                 JArr (map (\<lambda>t. JObj [(''role'', JStr (role t)), (''content'', JStr (content t))])
                           ms)),
                (''temperature'', JNum ''0.4''), (''max_tokens'', JNum ''350'')]\<rparr>
   \<and> render_turn \<lparr>role = r, content = x\<rparr> =
       (if r = ''user'' then ''User'' else ''Assistant'') @ '': '' @ x"
proof -
  have 1: "userInput input =
     (case ToString (if truthy input then input else JStr []) of
        Inl e \<Rightarrow> Inl e
      | Inr s \<Rightarrow> Inr (take 4000 (trim s)))"
    by (auto simp: userInput_def or_js_def slice_to_def split: sum.splits)
  have 2: "\<forall>ui. userInput input = Inr ui \<longrightarrow> length ui \<le> 4000"
    using userInput_length by blast
  have 3: "ToString (JStr s) = Inr s" "ToString (JNum t) = Inr t"
    "ToString (JBool b) = Inr (if b then ''true'' else ''false'')"
    "ToString (JObj kvs) =
       (if ''toString'' \<in> set (map fst kvs) then Inl TypeError else Inr ''[object Object]'')"
    by simp_all
  have 4: "responses_request k m i tr =
       \<lparr>url = ''https://api.openai.com/v1/responses'', authorization = ''Bearer '' @ k,
        json_body = JObj [(''model'', JStr m), (''instructions'', JStr i), (''input'', JStr tr),
                          (''temperature'', JNum ''0.4''), (''max_output_tokens'', JNum ''350'')]\<rparr>"
    by (simp add: responses_request_def)
  have 5: "chat_request k m ms =
       \<lparr>url = ''https://api.openai.com/v1/chat/completions'', authorization = ''Bearer '' @ k,
        json_body =
          JObj [(''model'', JStr m),
                (''messages'',
                 JArr (map (\<lambda>t. JObj [(''role'', JStr (role t)), (''content'', JStr (content t))])
                           ms)),
                (''temperature'', JNum ''0.4''), (''max_tokens'', JNum ''350'')]\<rparr>"
    by (simp add: chat_request_def turn_json_def)
  have 6: "render_turn \<lparr>role = r, content = x\<rparr> =
       (if r = ''user'' then ''User'' else ''Assistant'') @ '': '' @ x"
    by (simp add: render_turn_def)
  from 1 2 3 worker_sent [of fetch env input history telemetry]
    server_sent [of fetch env input history telemetry] 4 5 6
  show ?thesis by blast
qed

text \<open>Examples: an input with white space around it, an input of 4100 characters, an
  array, and two inputs that cannot be converted; the request of the edge handler with
  one turn of history; the two requests of the long-running process when the primary
  endpoint answers 404; and nothing sent for an input that cannot be converted.\<close>

theorem userInput_capped_witness:
  "userInput (JStr ''  hello '') = Inr ''hello''
   \<and> userInput (JStr (replicate 4100 (CHR ''a''))) = Inr (replicate 4000 (CHR ''a''))
   \<and> length (replicate 4000 (CHR ''a'')) \<le> 4000
   \<and> userInput (JArr [JStr ''a'', JNull, JNum ''2'']) = Inr ''a,,2''
   \<and> userInput unprintable = Inl TypeError
   \<and> userInput (JArr [JNum ''1'', unprintable]) = Inl TypeError
   \<and> fst (worker_callOpenAI provider_down env_with_key (JStr ''  hello '')
            (JArr [user_turn ''assistant'' '' one '']) JUndefined) =
       [responses_request ''sk-test'' ''gpt-4.1'' (systemPrompt JUndefined)
          (''Assistant: one'' @ [NL] @ ''User: hello'')]
   \<and> fst (worker_callOpenAI provider_down env_with_key unprintable JUndefined JUndefined) = []
   \<and> fst (server_callOpenAI (provider_of resp_404 resp_chat_ok) env_with_key (JStr ''  hello '')
            (JArr [user_turn ''assistant'' '' one '']) JUndefined) =
       [responses_request ''sk-test'' ''gpt-4.1'' (systemPrompt JUndefined)
          (''Assistant: one'' @ [NL] @ ''User: hello''),
        chat_request ''sk-test'' ''gpt-4.1''
          [\<lparr>role = ''system'', content = systemPrompt JUndefined\<rparr>,
           \<lparr>role = ''assistant'', content = ''one''\<rparr>,
           \<lparr>role = ''user'', content = ''hello''\<rparr>]]
   \<and> fst (server_callOpenAI (provider_of resp_500 resp_chat_ok) env_with_key (JStr ''  hello '')
            JUndefined JUndefined) =
       [responses_request ''sk-test'' ''gpt-4.1'' (systemPrompt JUndefined) ''User: hello'']
   \<and> fst (server_callOpenAI (provider_of resp_404 resp_chat_ok) env_with_key unprintable
            JUndefined JUndefined) = []"
proof -
  have l: "length (replicate 4000 (CHR ''a'')) \<le> 4000"
    using userInput_capped [of "JStr (replicate 4100 (CHR ''a''))"] userInput_long by blast
  have w1: "fst (worker_callOpenAI provider_down env_with_key (JStr ''  hello '')
            (JArr [user_turn ''assistant'' '' one '']) JUndefined) =
       [responses_request ''sk-test'' ''gpt-4.1'' (systemPrompt JUndefined)
          (''Assistant: one'' @ [NL] @ ''User: hello'')]"
    using userInput_capped [where input = "JStr ''  hello ''" and fetch = provider_down and env = env_with_key
        and history = "JArr [user_turn ''assistant'' '' one '']" and telemetry = JUndefined, THEN conjunct2, THEN conjunct2,
        THEN conjunct2, THEN conjunct2, THEN conjunct2, THEN conjunct2, THEN conjunct1]
    by (simp add: userInput_hello env_or_with models_with normalizeHistory_one render_turn_def)
  have w2: "fst (worker_callOpenAI provider_down env_with_key unprintable JUndefined JUndefined)
            = []"
    using userInput_capped [where input = unprintable and fetch = provider_down and env = env_with_key
        and history = JUndefined and telemetry = JUndefined, THEN conjunct2, THEN conjunct2,
        THEN conjunct2, THEN conjunct2, THEN conjunct2, THEN conjunct2, THEN conjunct1]
    by (simp add: userInput_unprintable)
  have s1: "fst (server_callOpenAI (provider_of resp_404 resp_chat_ok) env_with_key
            (JStr ''  hello '') (JArr [user_turn ''assistant'' '' one '']) JUndefined) =
       [responses_request ''sk-test'' ''gpt-4.1'' (systemPrompt JUndefined)
          (''Assistant: one'' @ [NL] @ ''User: hello''),
        chat_request ''sk-test'' ''gpt-4.1''
          [\<lparr>role = ''system'', content = systemPrompt JUndefined\<rparr>,
           \<lparr>role = ''assistant'', content = ''one''\<rparr>,
           \<lparr>role = ''user'', content = ''hello''\<rparr>]]"
    using userInput_capped [where input = "JStr ''  hello ''" and fetch = "provider_of resp_404 resp_chat_ok"
        and env = env_with_key and history = "JArr [user_turn ''assistant'' '' one '']" and telemetry = JUndefined, THEN conjunct2, THEN conjunct2,
        THEN conjunct2, THEN conjunct2, THEN conjunct2, THEN conjunct2, THEN conjunct2,
        THEN conjunct1]
    by (simp add: userInput_hello env_or_with models_with normalizeHistory_one render_turn_def
        responses_read_404 failure_def Let_def)
  have s2: "fst (server_callOpenAI (provider_of resp_500 resp_chat_ok) env_with_key
            (JStr ''  hello '') JUndefined JUndefined) =
       [responses_request ''sk-test'' ''gpt-4.1'' (systemPrompt JUndefined) ''User: hello'']"
    using userInput_capped [where input = "JStr ''  hello ''" and fetch = "provider_of resp_500 resp_chat_ok"
        and env = env_with_key and history = JUndefined and telemetry = JUndefined,
        THEN conjunct2, THEN conjunct2,
        THEN conjunct2, THEN conjunct2, THEN conjunct2, THEN conjunct2, THEN conjunct2,
        THEN conjunct1]
    by (simp add: userInput_hello env_or_with models_with normalizeHistory_def
        responses_read_500 failure_def Let_def)
  have s3: "fst (server_callOpenAI (provider_of resp_404 resp_chat_ok) env_with_key unprintable
            JUndefined JUndefined) = []"
    using userInput_capped [where input = unprintable and fetch = "provider_of resp_404 resp_chat_ok"
        and env = env_with_key and history = JUndefined and telemetry = JUndefined,
        THEN conjunct2, THEN conjunct2,
        THEN conjunct2, THEN conjunct2, THEN conjunct2, THEN conjunct2, THEN conjunct2,
        THEN conjunct1]
    by (simp add: userInput_unprintable)
  from userInput_hello userInput_long l userInput_array userInput_unprintable
    userInput_unprintable_element w1 w2 s1 s2 s3
  show ?thesis by blast
qed

section \<open>The fallback of \<^verbatim>\<open>server.js\<close>\<close>

lemma tryResponsesApi_sent:
  "fst (tryResponsesApi fetch k m sp ms) = [responses_request k m sp (server_transcript ms)]"
  by (simp add: tryResponsesApi_def Let_def split: option.splits)

lemma tryChat_sent:
  "fst (tryChatCompletionsApi fetch k m ms) = [chat_request k m ms]"
  by (simp add: tryChatCompletionsApi_def Let_def split: option.splits)

lemma secondary_called_primary [simp]:
  "\<not> secondary_called (fst (tryResponsesApi fetch k m sp ms))"
  by (simp add: tryResponsesApi_sent secondary_called_def)

lemma secondary_called_append_chat [simp]:
  "secondary_called (sent @ fst (tryChatCompletionsApi fetch k m ms))"
  by (simp add: tryChat_sent secondary_called_def)

lemma secondary_called_Nil [simp]: "\<not> secondary_called []"
  by (simp add: secondary_called_def)

text \<open>The strategy of \<^verbatim>\<open>server.js\<close> once the credential is there: it throws where the
  input cannot be converted, and otherwise goes by the outcomes of its two attempts.\<close>

lemma server_callOpenAI_throw:
  assumes "OPENAI_API_KEY env = Some key" "key \<noteq> []" "userInput input = Inl e"
  shows "server_callOpenAI fetch env input history telemetry = ([], Inl e)"
  using assms by (simp add: server_callOpenAI_def env_or_def)

lemma server_callOpenAI_unfold:
  assumes "OPENAI_API_KEY env = Some key" "key \<noteq> []" "userInput input = Inr ui"
  shows "server_callOpenAI fetch env input history telemetry =
     (case tryResponsesApi fetch key (server_model env) (systemPrompt telemetry)
             (messages ui history telemetry) of
        (sent, Inl e) \<Rightarrow> (sent, Inl e)
      | (sent, Inr r1) \<Rightarrow>
          if ok r1 \<or> status r1 \<notin> fallbackableStatuses then (sent, Inr r1)
          else (case tryChatCompletionsApi fetch key (server_model env)
                       (messages ui history telemetry) of
                  (sent2, Inl e) \<Rightarrow> (sent @ sent2, Inl e)
                | (sent2, Inr r2) \<Rightarrow>
                    if ok r2 then (sent @ sent2, Inr r2)
                    else (sent @ sent2, composite_error r1 r2)))"
  using assms
  by (simp add: server_callOpenAI_def env_or_def Let_def split: prod.splits sum.splits)

lemma tryResponsesApi_unfold:
  "tryResponsesApi fetch key mdl sp ms =
     ([responses_request key mdl sp (server_transcript ms)],
      case fetch (responses_request key mdl sp (server_transcript ms)) of
        None \<Rightarrow> Inl NetworkError
      | Some response \<Rightarrow> responses_read response)"
  by (simp add: tryResponsesApi_def Let_def split: option.splits)

lemma tryChat_unfold:
  "tryChatCompletionsApi fetch key mdl ms =
     ([chat_request key mdl ms],
      case fetch (chat_request key mdl ms) of
        None \<Rightarrow> Inl NetworkError
      | Some response \<Rightarrow> Inr (chat_read response))"
  by (simp add: tryChatCompletionsApi_def Let_def split: option.splits)

lemma responses_read_not_ok:
  "\<not> response_ok response \<Longrightarrow>
   responses_read response =
     Inr (failure (response_status response) (error_detail (response_data response)))"
  by (simp add: responses_read_def)

lemma fallbackable_not_ok:
  "response_status response \<in> {400, 404, 405, 415} \<Longrightarrow> \<not> response_ok response"
  by (auto simp: response_ok_def)

lemma chunks_result_failure:
  "chunks_result m data = Inr r \<Longrightarrow> \<not> ok r \<Longrightarrow>
   r = failure 502 (JStr ''OpenAI response missing text.'')"
  by (auto simp: chunks_result_def Let_def success_def failure_def split: sum.splits if_splits)

lemma responses_read_ok_failure:
  assumes "response_ok response" "responses_read response = Inr r" "\<not> ok r"
  shows "r = failure 502 (JStr ''OpenAI response missing text.'')"
  using assms chunks_result_failure [of None "response_data response" r]
  by (auto simp: responses_read_def Let_def success_def split: option.splits)

text \<open>A failed primary result has a status that allows the fallback exactly when the
  HTTP response has.\<close>

lemma responses_read_fallbackable:
  "(\<exists>r. responses_read response = Inr r \<and> \<not> ok r \<and> status r \<in> {400, 404, 405, 415})
   \<longleftrightarrow> response_status response \<in> {400, 404, 405, 415}"
proof
  assume "\<exists>r. responses_read response = Inr r \<and> \<not> ok r \<and> status r \<in> {400, 404, 405, 415}"
  then obtain r where r: "responses_read response = Inr r" "\<not> ok r"
    "status r \<in> {400, 404, 405, 415}" by blast
  show "response_status response \<in> {400, 404, 405, 415}"
  proof (cases "response_ok response")
    case True
    from responses_read_ok_failure [OF True r(1,2)] r(3) show ?thesis
      by (simp add: failure_def)
  next
    case False
    with r(1) have "status r = response_status response"
      by (auto simp: responses_read_not_ok failure_def)
    with r(3) show ?thesis by simp
  qed
next
  assume a: "response_status response \<in> {400, 404, 405, 415}"
  then have "\<not> response_ok response" by (rule fallbackable_not_ok)
  then have "responses_read response =
     Inr (failure (response_status response) (error_detail (response_data response)))"
    by (rule responses_read_not_ok)
  moreover have "\<not> ok (failure (response_status response) (error_detail (response_data response)))"
    and "status (failure (response_status response) (error_detail (response_data response)))
         = response_status response"
    by (simp_all add: failure_def)
  ultimately show
    "\<exists>r. responses_read response = Inr r \<and> \<not> ok r \<and> status r \<in> {400, 404, 405, 415}"
    using a by metis
qed

lemma fallback_free:
  assumes "OPENAI_API_KEY env = Some key" "key \<noteq> []" "userInput input = Inr ui"
    and "tryResponsesApi fetch key (server_model env) (systemPrompt telemetry)
           (messages ui history telemetry) = (sent, Inr r)"
    and "ok r \<or> status r \<notin> fallbackableStatuses"
  shows "server_callOpenAI fetch env input history telemetry = (sent, Inr r)"
  unfolding server_callOpenAI_unfold [OF assms(1-3)] assms(4) using assms(5) by simp

lemma fallback_taken:
  assumes "OPENAI_API_KEY env = Some key" "key \<noteq> []" "userInput input = Inr ui"
    and "tryResponsesApi fetch key (server_model env) (systemPrompt telemetry)
           (messages ui history telemetry) = (sent, Inr r)"
    and "\<not> ok r" "status r \<in> {400, 404, 405, 415}"
  shows "server_callOpenAI fetch env input history telemetry =
     (case tryChatCompletionsApi fetch key (server_model env) (messages ui history telemetry) of
        (sent2, Inl e) \<Rightarrow> (sent @ sent2, Inl e)
      | (sent2, Inr r2) \<Rightarrow>
          if ok r2 then (sent @ sent2, Inr r2) else (sent @ sent2, composite_error r r2))"
  unfolding server_callOpenAI_unfold [OF assms(1-3)] assms(4) using assms(5,6)
  by (auto simp: fallbackableStatuses_def)

lemma secondary_called_iff:
  assumes "OPENAI_API_KEY env = Some key" "key \<noteq> []" "userInput input = Inr ui"
    and "tryResponsesApi fetch key (server_model env) (systemPrompt telemetry)
           (messages ui history telemetry) = (sent, primary)"
  shows "secondary_called (fst (server_callOpenAI fetch env input history telemetry))
         \<longleftrightarrow> (\<exists>r. primary = Inr r \<and> \<not> ok r \<and> status r \<in> {400, 404, 405, 415})"
proof -
  have s: "\<not> secondary_called sent"
    using secondary_called_primary [of fetch key "server_model env" "systemPrompt telemetry"
        "messages ui history telemetry"] assms(4) by simp
  have c: "\<And>s2 x. tryChatCompletionsApi fetch key (server_model env)
                       (messages ui history telemetry) = (s2, x)
                    \<Longrightarrow> secondary_called (sent @ s2)"
    using secondary_called_append_chat [of sent fetch key "server_model env"
        "messages ui history telemetry"]
    by simp
  show ?thesis
    unfolding server_callOpenAI_unfold [OF assms(1-3)] assms(4)
    using s c
    by (auto simp: fallbackableStatuses_def split: sum.splits prod.splits)
qed


lemma primary_500:
  "tryResponsesApi (provider_of resp_500 r2) ''sk-test'' (server_model env_with_key)
     (systemPrompt JUndefined) (messages ''hello'' JUndefined JUndefined)
   = ([responses_request ''sk-test'' (server_model env_with_key) (systemPrompt JUndefined)
         (server_transcript (messages ''hello'' JUndefined JUndefined))],
      Inr (failure 500 (JStr ''boom'')))"
  by (simp add: tryResponsesApi_unfold responses_read_500)

lemma primary_404:
  "tryResponsesApi (provider_of resp_404 r2) ''sk-test'' (server_model env_with_key)
     (systemPrompt JUndefined) (messages ''hello'' JUndefined JUndefined)
   = ([responses_request ''sk-test'' (server_model env_with_key) (systemPrompt JUndefined)
         (server_transcript (messages ''hello'' JUndefined JUndefined))],
      Inr (failure 404 (JStr ''Unknown endpoint'')))"
  by (simp add: tryResponsesApi_unfold responses_read_404)

lemma userInput_plain: "userInput (JStr ''hello'') = Inr ''hello''"
  by (simp add: userInput_def or_js_def trim_def is_space_def slice_to_def)

text \<open>
  Claim C4. In \<^verbatim>\<open>server.js\<close>, with a credential configured, the secondary endpoint is
  called if and only if the primary attempt takes place and returns a failed result whose
  status is one of 400, 404, 405 and 415; that is, if and only if the provider answers
  the primary request with an HTTP response of one of these statuses. A failed primary
  result with any other status is returned as it is, after the primary request alone: a
  response that is not a success and has another status (500, say) is surfaced with that
  status and the error read from its body. (Where the input cannot be converted to a
  string the strategy throws before the primary attempt, and nothing is called.)
\<close>

theorem fallback_iff:
  assumes "OPENAI_API_KEY env = Some key" "key \<noteq> []"
  shows "(\<forall>e. userInput input = Inl e \<longrightarrow>
            server_callOpenAI fetch env input history telemetry = ([], Inl e))
         \<and> (secondary_called (fst (server_callOpenAI fetch env input history telemetry))
            \<longleftrightarrow> (\<exists>ui sent r. userInput input = Inr ui
                   \<and> tryResponsesApi fetch key (server_model env) (systemPrompt telemetry)
                        (messages ui history telemetry) = (sent, Inr r)
                   \<and> \<not> ok r \<and> status r \<in> {400, 404, 405, 415}))
         \<and> (\<forall>ui sent r. userInput input = Inr ui
               \<and> tryResponsesApi fetch key (server_model env) (systemPrompt telemetry)
                    (messages ui history telemetry) = (sent, Inr r)
               \<and> \<not> ok r \<and> status r \<notin> {400, 404, 405, 415} \<longrightarrow>
               server_callOpenAI fetch env input history telemetry = (sent, Inr r))
         \<and> (secondary_called (fst (server_callOpenAI fetch env input history telemetry))
            \<longleftrightarrow> (\<exists>ui response. userInput input = Inr ui
                   \<and> fetch (responses_request key (server_model env) (systemPrompt telemetry)
                              (server_transcript (messages ui history telemetry)))
                       = Some response
                   \<and> response_status response \<in> {400, 404, 405, 415}))
         \<and> (\<forall>ui response. userInput input = Inr ui
               \<and> fetch (responses_request key (server_model env) (systemPrompt telemetry)
                          (server_transcript (messages ui history telemetry)))
                   = Some response
               \<and> \<not> response_ok response
               \<and> response_status response \<notin> {400, 404, 405, 415} \<longrightarrow>
               server_callOpenAI fetch env input history telemetry =
                 ([responses_request key (server_model env) (systemPrompt telemetry)
                     (server_transcript (messages ui history telemetry))],
                  Inr \<lparr>ok = False, status = response_status response, result_text = None,
                       error = Some (error_detail (response_data response)), model = None\<rparr>))"
proof -
  let ?call = "server_callOpenAI fetch env input history telemetry"
  let ?primary = "\<lambda>ui. tryResponsesApi fetch key (server_model env) (systemPrompt telemetry)
                       (messages ui history telemetry)"
  let ?req = "\<lambda>ui. responses_request key (server_model env) (systemPrompt telemetry)
                       (server_transcript (messages ui history telemetry))"
  have throw: "\<forall>e. userInput input = Inl e \<longrightarrow> ?call = ([], Inl e)"
    using server_callOpenAI_throw [OF assms] by blast
  have iff: "secondary_called (fst ?call)
            \<longleftrightarrow> (\<exists>ui sent r. userInput input = Inr ui \<and> ?primary ui = (sent, Inr r)
                   \<and> \<not> ok r \<and> status r \<in> {400, 404, 405, 415})"
  proof (cases "userInput input")
    case (Inl e)
    then show ?thesis using throw by simp
  next
    case (Inr ui)
    obtain sent primary where p: "?primary ui = (sent, primary)" by (cases "?primary ui")
    from secondary_called_iff [OF assms Inr p] Inr p show ?thesis by auto
  qed
  have direct: "\<forall>ui sent r. userInput input = Inr ui \<and> ?primary ui = (sent, Inr r)
               \<and> \<not> ok r \<and> status r \<notin> {400, 404, 405, 415} \<longrightarrow> ?call = (sent, Inr r)"
    using fallback_free [OF assms] by (simp add: fallbackableStatuses_def)
  have http_iff: "secondary_called (fst ?call)
            \<longleftrightarrow> (\<exists>ui response. userInput input = Inr ui \<and> fetch (?req ui) = Some response
                   \<and> response_status response \<in> {400, 404, 405, 415})"
  proof -
    have "\<And>ui. (\<exists>sent r. ?primary ui = (sent, Inr r) \<and> \<not> ok r \<and> status r \<in> {400, 404, 405, 415})
            \<longleftrightarrow> (\<exists>response. fetch (?req ui) = Some response
                   \<and> response_status response \<in> {400, 404, 405, 415})"
    proof -
      fix ui
      show "(\<exists>sent r. ?primary ui = (sent, Inr r) \<and> \<not> ok r \<and> status r \<in> {400, 404, 405, 415})
            \<longleftrightarrow> (\<exists>response. fetch (?req ui) = Some response
                   \<and> response_status response \<in> {400, 404, 405, 415})"
      proof (cases "fetch (?req ui)")
        case None
        then show ?thesis by (simp add: tryResponsesApi_unfold)
      next
        case (Some response)
        then show ?thesis
          using responses_read_fallbackable [of response]
          by (simp add: tryResponsesApi_unfold)
      qed
    qed
    then show ?thesis using iff by metis
  qed
  have http_direct: "\<forall>ui response. userInput input = Inr ui \<and> fetch (?req ui) = Some response
               \<and> \<not> response_ok response
               \<and> response_status response \<notin> {400, 404, 405, 415} \<longrightarrow>
               ?call = ([?req ui],
                  Inr \<lparr>ok = False, status = response_status response, result_text = None,
                       error = Some (error_detail (response_data response)), model = None\<rparr>)"
  proof (intro allI impI)
    fix ui response
    assume a: "userInput input = Inr ui \<and> fetch (?req ui) = Some response
               \<and> \<not> response_ok response
               \<and> response_status response \<notin> {400, 404, 405, 415}"
    let ?r = "\<lparr>ok = False, status = response_status response, result_text = None,
               error = Some (error_detail (response_data response)), model = None\<rparr>"
    have "?primary ui = ([?req ui], Inr ?r)"
      using a by (simp add: tryResponsesApi_unfold responses_read_not_ok failure_def)
    moreover have "\<not> ok ?r" and "status ?r \<notin> {400, 404, 405, 415}" using a by simp_all
    ultimately show "?call = ([?req ui], Inr ?r)" using direct a by blast
  qed
  from throw iff direct http_iff http_direct show ?thesis by blast
qed

text \<open>The example of the specification: a primary failure with status 500 is returned
  with the primary's message and the secondary endpoint is not called; with status 404
  it is called; for an input that cannot be converted nothing is called.\<close>

theorem fallback_iff_witness:
  "OPENAI_API_KEY env_with_key = Some ''sk-test''
   \<and> userInput (JStr ''hello'') = Inr ''hello''
   \<and> provider_of resp_500 resp_chat_ok
        (responses_request ''sk-test'' (server_model env_with_key) (systemPrompt JUndefined)
           (server_transcript (messages ''hello'' JUndefined JUndefined))) = Some resp_500
   \<and> response_status resp_500 = 500
   \<and> \<not> secondary_called (fst (server_callOpenAI (provider_of resp_500 resp_chat_ok) env_with_key
                                 (JStr ''hello'') JUndefined JUndefined))
   \<and> server_callOpenAI (provider_of resp_500 resp_chat_ok) env_with_key
        (JStr ''hello'') JUndefined JUndefined
       = ([responses_request ''sk-test'' (server_model env_with_key) (systemPrompt JUndefined)
             (server_transcript (messages ''hello'' JUndefined JUndefined))],
          Inr \<lparr>ok = False, status = 500, result_text = None, error = Some (JStr ''boom''),
               model = None\<rparr>)
   \<and> secondary_called (fst (server_callOpenAI (provider_of resp_404 resp_chat_ok) env_with_key
                               (JStr ''hello'') JUndefined JUndefined))
   \<and> userInput unprintable = Inl TypeError
   \<and> server_callOpenAI (provider_of resp_404 resp_chat_ok) env_with_key unprintable
        JUndefined JUndefined = ([], Inl TypeError)"
proof -
  have k: "''sk-test'' \<noteq> []" by simp
  let ?req = "responses_request ''sk-test'' (server_model env_with_key) (systemPrompt JUndefined)
           (server_transcript (messages ''hello'' JUndefined JUndefined))"
  have f500: "provider_of resp_500 resp_chat_ok ?req = Some resp_500" by simp
  have f404: "provider_of resp_404 resp_chat_ok ?req = Some resp_404" by simp
  have s500: "response_status resp_500 = 500" "\<not> response_ok resp_500"
    "response_status resp_500 \<notin> {400, 404, 405, 415}"
    "error_detail (response_data resp_500) = JStr ''boom''"
    by (simp_all add: resp_500_def response_ok_def error_detail_message)
  have s404: "response_status resp_404 \<in> {400, 404, 405, 415}"
    by (simp add: resp_404_def)
  note a = fallback_iff [OF key_with k, where fetch = "provider_of resp_500 resp_chat_ok"
      and input = "JStr ''hello''" and history = JUndefined and telemetry = JUndefined]
  note b = fallback_iff [OF key_with k, where fetch = "provider_of resp_404 resp_chat_ok"
      and input = "JStr ''hello''" and history = JUndefined and telemetry = JUndefined]
  note c = fallback_iff [OF key_with k, where fetch = "provider_of resp_404 resp_chat_ok"
      and input = unprintable and history = JUndefined and telemetry = JUndefined]
  have 1: "\<not> secondary_called (fst (server_callOpenAI (provider_of resp_500 resp_chat_ok)
             env_with_key (JStr ''hello'') JUndefined JUndefined))"
    using a [THEN conjunct2, THEN conjunct2, THEN conjunct2, THEN conjunct1]
      userInput_plain f500 s500(3) by simp
  have 2: "server_callOpenAI (provider_of resp_500 resp_chat_ok) env_with_key
        (JStr ''hello'') JUndefined JUndefined
       = ([?req], Inr \<lparr>ok = False, status = 500, result_text = None,
                      error = Some (JStr ''boom''), model = None\<rparr>)"
    using a [THEN conjunct2, THEN conjunct2, THEN conjunct2, THEN conjunct2]
      userInput_plain f500 s500 by fastforce
  have 3: "secondary_called (fst (server_callOpenAI (provider_of resp_404 resp_chat_ok)
             env_with_key (JStr ''hello'') JUndefined JUndefined))"
    using b [THEN conjunct2, THEN conjunct2, THEN conjunct2, THEN conjunct1]
      userInput_plain f404 s404 by blast
  have 4: "server_callOpenAI (provider_of resp_404 resp_chat_ok) env_with_key unprintable
        JUndefined JUndefined = ([], Inl TypeError)"
    using c [THEN conjunct1] userInput_unprintable by blast
  from key_with userInput_plain f500 s500(1) 1 2 3 userInput_unprintable 4
  show ?thesis by blast
qed

section \<open>Both attempts fail\<close>

lemma sublist_first: "sublist xs (xs @ r)"
  by (metis append_Nil sublist_appendI)

lemma sublist_second: "sublist xs (p @ xs @ r)"
  by (rule sublist_appendI)

lemma sublist_fourth: "sublist xs (p @ q @ r @ xs @ t)"
  by (metis append.assoc sublist_appendI)

lemma sublist_fifth: "sublist xs (p @ q @ r @ t @ xs)"
  by (metis append.assoc append_Nil2 sublist_appendI)

lemma composite_error_strings:
  assumes "error r1 = Some e1" "error r2 = Some e2" "ToString e1 = Inr m1" "ToString e2 = Inr m2"
  shows "composite_error r1 r2 =
           Inr \<lparr>ok = False, status = status r2, result_text = None,
                error = Some (JStr (''Responses API error: '' @ m1 @ [NL]
                                    @ ''Chat Completions error: '' @ m2)),
                model = None\<rparr>"
  using assms by (simp add: composite_error_def error_text_def failure_def)

lemma composite_error_throw_first:
  assumes "error r1 = Some e1" "ToString e1 = Inl e"
  shows "composite_error r1 r2 = Inl e"
  using assms by (simp add: composite_error_def error_text_def)

lemma composite_error_throw_second:
  assumes "error r1 = Some e1" "ToString e1 = Inr m1" "error r2 = Some e2" "ToString e2 = Inl e"
  shows "composite_error r1 r2 = Inl e"
  using assms by (simp add: composite_error_def error_text_def)

lemma chat_read_not_ok:
  "\<not> response_ok response \<Longrightarrow>
   chat_read response = failure (response_status response) (error_detail (response_data response))"
  by (simp add: chat_read_def)

lemma chat_read_401: "chat_read resp_401 = failure 401 (JStr ''Bad key'')"
  by (simp add: chat_read_def resp_401_def response_ok_def error_detail_message)

lemma responses_read_404_unprintable:
  "responses_read resp_404_unprintable = Inr (failure 404 unprintable)"
  by (simp add: responses_read_def resp_404_unprintable_def response_ok_def error_detail_def
      or_js_def unprintable_def)

lemma provider_primary_only_primary [simp]:
  "provider_primary_only r1 (responses_request k m i t) = Some r1"
  by (simp add: provider_primary_only_def)

lemma provider_primary_only_secondary [simp]:
  "provider_primary_only r1 (chat_request k m ms) = None"
  by (simp add: provider_primary_only_def)

text \<open>
  Claim C7, as stated, says that whenever both attempts fail the result is the composite
  failure. The composite error is built by a template literal, which converts both
  errors to strings, and the error of a failed attempt is whatever truthy value the
  provider put in \<^verbatim>\<open>error.message\<close>. When the primary endpoint answers 404 with the message
  \<^verbatim>\<open>{ "toString": 1 }\<close> and the secondary endpoint answers 401, both attempts have failed
  and the strategy throws a TypeError instead of returning a result.
\<close>

theorem composite_error_throws:
  "tryResponsesApi (provider_of resp_404_unprintable resp_401) ''sk-test''
     (server_model env_with_key) (systemPrompt JUndefined)
     (messages ''hello'' JUndefined JUndefined) =
     ([responses_request ''sk-test'' (server_model env_with_key) (systemPrompt JUndefined)
         (server_transcript (messages ''hello'' JUndefined JUndefined))],
      Inr \<lparr>ok = False, status = 404, result_text = None, error = Some unprintable,
           model = None\<rparr>)
   \<and> tryChatCompletionsApi (provider_of resp_404_unprintable resp_401) ''sk-test''
       (server_model env_with_key) (messages ''hello'' JUndefined JUndefined) =
     ([chat_request ''sk-test'' (server_model env_with_key)
         (messages ''hello'' JUndefined JUndefined)],
      Inr \<lparr>ok = False, status = 401, result_text = None, error = Some (JStr ''Bad key''),
           model = None\<rparr>)
   \<and> server_callOpenAI (provider_of resp_404_unprintable resp_401) env_with_key
       (JStr ''hello'') JUndefined JUndefined =
     ([responses_request ''sk-test'' (server_model env_with_key) (systemPrompt JUndefined)
         (server_transcript (messages ''hello'' JUndefined JUndefined)),
       chat_request ''sk-test'' (server_model env_with_key)
         (messages ''hello'' JUndefined JUndefined)],
      Inl TypeError)"
proof -
  have k: "''sk-test'' \<noteq> []" by simp
  have p: "tryResponsesApi (provider_of resp_404_unprintable resp_401) ''sk-test''
     (server_model env_with_key) (systemPrompt JUndefined)
     (messages ''hello'' JUndefined JUndefined) =
     ([responses_request ''sk-test'' (server_model env_with_key) (systemPrompt JUndefined)
         (server_transcript (messages ''hello'' JUndefined JUndefined))],
      Inr (failure 404 unprintable))"
    by (simp add: tryResponsesApi_unfold responses_read_404_unprintable)
  have c: "tryChatCompletionsApi (provider_of resp_404_unprintable resp_401) ''sk-test''
       (server_model env_with_key) (messages ''hello'' JUndefined JUndefined) =
     ([chat_request ''sk-test'' (server_model env_with_key)
         (messages ''hello'' JUndefined JUndefined)],
      Inr (failure 401 (JStr ''Bad key'')))"
    by (simp add: tryChat_unfold chat_read_401)
  have t: "composite_error (failure 404 unprintable) (failure 401 (JStr ''Bad key''))
           = Inl TypeError"
    by (simp add: composite_error_def error_text_def failure_def unprintable_def)
  have n: "\<not> ok (failure 404 unprintable)"
    "status (failure 404 unprintable) \<in> {400, 404, 405, 415}"
    "\<not> ok (failure 401 (JStr ''Bad key''))"
    by (simp_all add: failure_def)
  have "server_callOpenAI (provider_of resp_404_unprintable resp_401) env_with_key
       (JStr ''hello'') JUndefined JUndefined =
     ([responses_request ''sk-test'' (server_model env_with_key) (systemPrompt JUndefined)
         (server_transcript (messages ''hello'' JUndefined JUndefined)),
       chat_request ''sk-test'' (server_model env_with_key)
         (messages ''hello'' JUndefined JUndefined)],
      Inl TypeError)"
    unfolding fallback_taken [OF key_with k userInput_plain p n(1,2)] c
    using n(3) t by simp
  with p c show ?thesis by (simp add: failure_def)
qed

text \<open>
  Claim C7, amended. In \<^verbatim>\<open>server.js\<close>, when the primary attempt returns a failure whose
  status allows the fallback and the secondary attempt returns a failure too, and both
  errors can be converted to strings (every string can, and is its own text), the result
  is \<^verbatim>\<open>ok: false\<close> with the status of the secondary attempt, and its error is the string
  made of the label \<^verbatim>\<open>Responses API error: \<close>, the primary's error, a newline, the label
  \<^verbatim>\<open>Chat Completions error: \<close> and the secondary's error: it contains both labels and both
  messages. In terms of the provider: when the primary response has one of the four
  statuses, the secondary response is not a success, and the errors read from the two
  bodies are the strings \<open>a\<close> and \<open>b\<close>, the composite carries \<open>a\<close> and \<open>b\<close> and the status
  of the secondary response. When an error cannot be converted, or the secondary call is
  rejected, the strategy throws after sending its requests.
\<close>

theorem both_fail_composite:
  assumes "OPENAI_API_KEY env = Some key" "key \<noteq> []" "userInput input = Inr ui"
  shows
    "(\<forall>sent1 r1 sent2 r2 e1 e2 m1 m2.
        tryResponsesApi fetch key (server_model env) (systemPrompt telemetry)
          (messages ui history telemetry) = (sent1, Inr r1)
        \<and> \<not> ok r1 \<and> status r1 \<in> {400, 404, 405, 415}
        \<and> tryChatCompletionsApi fetch key (server_model env)
            (messages ui history telemetry) = (sent2, Inr r2)
        \<and> \<not> ok r2
        \<and> error r1 = Some e1 \<and> error r2 = Some e2
        \<and> ToString e1 = Inr m1 \<and> ToString e2 = Inr m2 \<longrightarrow>
        server_callOpenAI fetch env input history telemetry =
          (sent1 @ sent2,
           Inr \<lparr>ok = False, status = status r2, result_text = None,
                error = Some (JStr (''Responses API error: '' @ m1 @ [NL]
                                    @ ''Chat Completions error: '' @ m2)),
                model = None\<rparr>)
        \<and> sublist ''Responses API error: ''
             (''Responses API error: '' @ m1 @ [NL] @ ''Chat Completions error: '' @ m2)
        \<and> sublist m1
             (''Responses API error: '' @ m1 @ [NL] @ ''Chat Completions error: '' @ m2)
        \<and> sublist ''Chat Completions error: ''
             (''Responses API error: '' @ m1 @ [NL] @ ''Chat Completions error: '' @ m2)
        \<and> sublist m2
             (''Responses API error: '' @ m1 @ [NL] @ ''Chat Completions error: '' @ m2))
     \<and> (\<forall>s. ToString (JStr s) = Inr s)
     \<and> (\<forall>response1 response2 a b.
          fetch (responses_request key (server_model env) (systemPrompt telemetry)
                   (server_transcript (messages ui history telemetry))) = Some response1
          \<and> response_status response1 \<in> {400, 404, 405, 415}
          \<and> error_detail (response_data response1) = JStr a
          \<and> fetch (chat_request key (server_model env) (messages ui history telemetry))
              = Some response2
          \<and> \<not> response_ok response2
          \<and> error_detail (response_data response2) = JStr b \<longrightarrow>
          server_callOpenAI fetch env input history telemetry =
            ([responses_request key (server_model env) (systemPrompt telemetry)
                (server_transcript (messages ui history telemetry)),
              chat_request key (server_model env) (messages ui history telemetry)],
             Inr \<lparr>ok = False, status = response_status response2, result_text = None,
                  error = Some (JStr (''Responses API error: '' @ a @ [NL]
                                      @ ''Chat Completions error: '' @ b)),
                  model = None\<rparr>))
     \<and> (\<forall>sent1 r1 sent2 r2 e1 e.
          tryResponsesApi fetch key (server_model env) (systemPrompt telemetry)
            (messages ui history telemetry) = (sent1, Inr r1)
          \<and> \<not> ok r1 \<and> status r1 \<in> {400, 404, 405, 415}
          \<and> tryChatCompletionsApi fetch key (server_model env)
              (messages ui history telemetry) = (sent2, Inr r2)
          \<and> \<not> ok r2
          \<and> error r1 = Some e1 \<and> ToString e1 = Inl e \<longrightarrow>
          server_callOpenAI fetch env input history telemetry = (sent1 @ sent2, Inl e))
     \<and> (\<forall>sent1 r1 sent2 r2 e1 m1 e2 e.
          tryResponsesApi fetch key (server_model env) (systemPrompt telemetry)
            (messages ui history telemetry) = (sent1, Inr r1)
          \<and> \<not> ok r1 \<and> status r1 \<in> {400, 404, 405, 415}
          \<and> tryChatCompletionsApi fetch key (server_model env)
              (messages ui history telemetry) = (sent2, Inr r2)
          \<and> \<not> ok r2
          \<and> error r1 = Some e1 \<and> ToString e1 = Inr m1
          \<and> error r2 = Some e2 \<and> ToString e2 = Inl e \<longrightarrow>
          server_callOpenAI fetch env input history telemetry = (sent1 @ sent2, Inl e))
     \<and> (\<forall>sent1 r1 sent2 e.
          tryResponsesApi fetch key (server_model env) (systemPrompt telemetry)
            (messages ui history telemetry) = (sent1, Inr r1)
          \<and> \<not> ok r1 \<and> status r1 \<in> {400, 404, 405, 415}
          \<and> tryChatCompletionsApi fetch key (server_model env)
              (messages ui history telemetry) = (sent2, Inl e) \<longrightarrow>
          server_callOpenAI fetch env input history telemetry = (sent1 @ sent2, Inl e))"
proof -
  let ?call = "server_callOpenAI fetch env input history telemetry"
  let ?try1 = "tryResponsesApi fetch key (server_model env) (systemPrompt telemetry)
                 (messages ui history telemetry)"
  let ?try2 = "tryChatCompletionsApi fetch key (server_model env)
                 (messages ui history telemetry)"
  let ?p = "responses_request key (server_model env) (systemPrompt telemetry)
              (server_transcript (messages ui history telemetry))"
  let ?c = "chat_request key (server_model env) (messages ui history telemetry)"
  have taken: "\<And>sent1 r1. ?try1 = (sent1, Inr r1) \<Longrightarrow> \<not> ok r1
       \<Longrightarrow> status r1 \<in> {400, 404, 405, 415} \<Longrightarrow>
       ?call = (case ?try2 of
                  (sent2, Inl e) \<Rightarrow> (sent1 @ sent2, Inl e)
                | (sent2, Inr r2) \<Rightarrow>
                    if ok r2 then (sent1 @ sent2, Inr r2)
                    else (sent1 @ sent2, composite_error r1 r2))"
    by (rule fallback_taken [OF assms])
  have A: "\<forall>sent1 r1 sent2 r2 e1 e2 m1 m2.
        ?try1 = (sent1, Inr r1) \<and> \<not> ok r1 \<and> status r1 \<in> {400, 404, 405, 415}
        \<and> ?try2 = (sent2, Inr r2) \<and> \<not> ok r2
        \<and> error r1 = Some e1 \<and> error r2 = Some e2
        \<and> ToString e1 = Inr m1 \<and> ToString e2 = Inr m2 \<longrightarrow>
        ?call =
          (sent1 @ sent2,
           Inr \<lparr>ok = False, status = status r2, result_text = None,
                error = Some (JStr (''Responses API error: '' @ m1 @ [NL]
                                    @ ''Chat Completions error: '' @ m2)),
                model = None\<rparr>)
        \<and> sublist ''Responses API error: ''
             (''Responses API error: '' @ m1 @ [NL] @ ''Chat Completions error: '' @ m2)
        \<and> sublist m1
             (''Responses API error: '' @ m1 @ [NL] @ ''Chat Completions error: '' @ m2)
        \<and> sublist ''Chat Completions error: ''
             (''Responses API error: '' @ m1 @ [NL] @ ''Chat Completions error: '' @ m2)
        \<and> sublist m2
             (''Responses API error: '' @ m1 @ [NL] @ ''Chat Completions error: '' @ m2)"
  proof (intro allI impI)
    fix sent1 r1 sent2 r2 e1 e2 m1 m2
    assume h: "?try1 = (sent1, Inr r1) \<and> \<not> ok r1 \<and> status r1 \<in> {400, 404, 405, 415}
        \<and> ?try2 = (sent2, Inr r2) \<and> \<not> ok r2
        \<and> error r1 = Some e1 \<and> error r2 = Some e2
        \<and> ToString e1 = Inr m1 \<and> ToString e2 = Inr m2"
    let ?e = "''Responses API error: '' @ m1 @ [NL] @ ''Chat Completions error: '' @ m2"
    have "?call = (sent1 @ sent2, composite_error r1 r2)"
      using taken [of sent1 r1] h by simp
    then have a: "?call =
          (sent1 @ sent2,
           Inr \<lparr>ok = False, status = status r2, result_text = None,
                error = Some (JStr ?e), model = None\<rparr>)"
      using h composite_error_strings [of r1 e1 r2 e2 m1 m2] by simp
    have b: "sublist ''Responses API error: '' ?e" by (rule sublist_first)
    have c: "sublist m1 ?e" by (rule sublist_second)
    have d: "sublist ''Chat Completions error: '' ?e" by (rule sublist_fourth)
    have e: "sublist m2 ?e" by (rule sublist_fifth)
    from a b c d e show "?call =
          (sent1 @ sent2,
           Inr \<lparr>ok = False, status = status r2, result_text = None,
                error = Some (JStr ?e), model = None\<rparr>)
        \<and> sublist ''Responses API error: '' ?e \<and> sublist m1 ?e
        \<and> sublist ''Chat Completions error: '' ?e \<and> sublist m2 ?e"
      by blast
  qed
  have B: "\<forall>s. ToString (JStr s) = Inr s" by simp
  have C: "\<forall>response1 response2 a b.
          fetch ?p = Some response1
          \<and> response_status response1 \<in> {400, 404, 405, 415}
          \<and> error_detail (response_data response1) = JStr a
          \<and> fetch ?c = Some response2
          \<and> \<not> response_ok response2
          \<and> error_detail (response_data response2) = JStr b \<longrightarrow>
          ?call =
            ([?p, ?c],
             Inr \<lparr>ok = False, status = response_status response2, result_text = None,
                  error = Some (JStr (''Responses API error: '' @ a @ [NL]
                                      @ ''Chat Completions error: '' @ b)),
                  model = None\<rparr>)"
  proof (intro allI impI)
    fix response1 response2 a b
    assume h: "fetch ?p = Some response1
          \<and> response_status response1 \<in> {400, 404, 405, 415}
          \<and> error_detail (response_data response1) = JStr a
          \<and> fetch ?c = Some response2
          \<and> \<not> response_ok response2
          \<and> error_detail (response_data response2) = JStr b"
    let ?r1 = "failure (response_status response1) (JStr a)"
    let ?r2 = "failure (response_status response2) (JStr b)"
    have n1: "\<not> response_ok response1" using h fallbackable_not_ok by blast
    have t1: "?try1 = ([?p], Inr ?r1)"
      using h n1 by (simp add: tryResponsesApi_unfold responses_read_not_ok)
    have t2: "?try2 = ([?c], Inr ?r2)"
      using h by (simp add: tryChat_unfold chat_read_not_ok)
    have f: "\<not> ok ?r1" "status ?r1 \<in> {400, 404, 405, 415}" "\<not> ok ?r2"
      "error ?r1 = Some (JStr a)" "error ?r2 = Some (JStr b)"
      "status ?r2 = response_status response2"
      using h by (simp_all add: failure_def)
    have "?call = ([?p] @ [?c], composite_error ?r1 ?r2)"
      using taken [OF t1 f(1,2)] t2 f(3) by simp
    moreover have "composite_error ?r1 ?r2 =
           Inr \<lparr>ok = False, status = status ?r2, result_text = None,
                error = Some (JStr (''Responses API error: '' @ a @ [NL]
                                    @ ''Chat Completions error: '' @ b)),
                model = None\<rparr>"
      by (rule composite_error_strings [OF f(4,5)]) simp_all
    ultimately show "?call =
            ([?p, ?c],
             Inr \<lparr>ok = False, status = response_status response2, result_text = None,
                  error = Some (JStr (''Responses API error: '' @ a @ [NL]
                                      @ ''Chat Completions error: '' @ b)),
                  model = None\<rparr>)"
      using f(6) by simp
  qed
  have D: "\<forall>sent1 r1 sent2 r2 e1 e.
          ?try1 = (sent1, Inr r1) \<and> \<not> ok r1 \<and> status r1 \<in> {400, 404, 405, 415}
          \<and> ?try2 = (sent2, Inr r2) \<and> \<not> ok r2
          \<and> error r1 = Some e1 \<and> ToString e1 = Inl e \<longrightarrow>
          ?call = (sent1 @ sent2, Inl e)"
  proof (intro allI impI)
    fix sent1 r1 sent2 r2 e1 e
    assume h: "?try1 = (sent1, Inr r1) \<and> \<not> ok r1 \<and> status r1 \<in> {400, 404, 405, 415}
          \<and> ?try2 = (sent2, Inr r2) \<and> \<not> ok r2
          \<and> error r1 = Some e1 \<and> ToString e1 = Inl e"
    have "?call = (sent1 @ sent2, composite_error r1 r2)"
      using taken [of sent1 r1] h by simp
    then show "?call = (sent1 @ sent2, Inl e)"
      using h composite_error_throw_first [of r1 e1 e r2] by simp
  qed
  have E: "\<forall>sent1 r1 sent2 r2 e1 m1 e2 e.
          ?try1 = (sent1, Inr r1) \<and> \<not> ok r1 \<and> status r1 \<in> {400, 404, 405, 415}
          \<and> ?try2 = (sent2, Inr r2) \<and> \<not> ok r2
          \<and> error r1 = Some e1 \<and> ToString e1 = Inr m1
          \<and> error r2 = Some e2 \<and> ToString e2 = Inl e \<longrightarrow>
          ?call = (sent1 @ sent2, Inl e)"
  proof (intro allI impI)
    fix sent1 r1 sent2 r2 e1 m1 e2 e
    assume h: "?try1 = (sent1, Inr r1) \<and> \<not> ok r1 \<and> status r1 \<in> {400, 404, 405, 415}
          \<and> ?try2 = (sent2, Inr r2) \<and> \<not> ok r2
          \<and> error r1 = Some e1 \<and> ToString e1 = Inr m1
          \<and> error r2 = Some e2 \<and> ToString e2 = Inl e"
    have "?call = (sent1 @ sent2, composite_error r1 r2)"
      using taken [of sent1 r1] h by simp
    then show "?call = (sent1 @ sent2, Inl e)"
      using h composite_error_throw_second [of r1 e1 m1 r2 e2 e] by simp
  qed
  have F: "\<forall>sent1 r1 sent2 e.
          ?try1 = (sent1, Inr r1) \<and> \<not> ok r1 \<and> status r1 \<in> {400, 404, 405, 415}
          \<and> ?try2 = (sent2, Inl e) \<longrightarrow>
          ?call = (sent1 @ sent2, Inl e)"
  proof (intro allI impI)
    fix sent1 r1 sent2 e
    assume h: "?try1 = (sent1, Inr r1) \<and> \<not> ok r1 \<and> status r1 \<in> {400, 404, 405, 415}
          \<and> ?try2 = (sent2, Inl e)"
    show "?call = (sent1 @ sent2, Inl e)"
      using taken [of sent1 r1] h by simp
  qed
  from A B C D E F show ?thesis by blast
qed


text \<open>Examples: the primary endpoint answers 404 and the secondary 401, both with a
  message; the same with a secondary endpoint that cannot be reached.\<close>

theorem both_fail_composite_witness:
  "userInput (JStr ''hello'') = Inr ''hello''
   \<and> response_status resp_404 = 404
   \<and> error_detail (response_data resp_404) = JStr ''Unknown endpoint''
   \<and> response_status resp_401 = 401
   \<and> error_detail (response_data resp_401) = JStr ''Bad key''
   \<and> server_callOpenAI (provider_of resp_404 resp_401) env_with_key (JStr ''hello'')
       JUndefined JUndefined =
     ([responses_request ''sk-test'' (server_model env_with_key) (systemPrompt JUndefined)
         (server_transcript (messages ''hello'' JUndefined JUndefined)),
       chat_request ''sk-test'' (server_model env_with_key)
         (messages ''hello'' JUndefined JUndefined)],
      Inr \<lparr>ok = False, status = 401, result_text = None,
           error = Some (JStr (''Responses API error: Unknown endpoint'' @ [NL]
                               @ ''Chat Completions error: Bad key'')),
           model = None\<rparr>)
   \<and> sublist ''Unknown endpoint''
        (''Responses API error: '' @ ''Unknown endpoint'' @ [NL] @ ''Chat Completions error: ''
         @ ''Bad key'')
   \<and> sublist ''Bad key''
        (''Responses API error: '' @ ''Unknown endpoint'' @ [NL] @ ''Chat Completions error: ''
         @ ''Bad key'')
   \<and> server_callOpenAI (provider_primary_only resp_404) env_with_key (JStr ''hello'')
       JUndefined JUndefined =
     ([responses_request ''sk-test'' (server_model env_with_key) (systemPrompt JUndefined)
         (server_transcript (messages ''hello'' JUndefined JUndefined)),
       chat_request ''sk-test'' (server_model env_with_key)
         (messages ''hello'' JUndefined JUndefined)],
      Inl NetworkError)"
proof -
  have k: "''sk-test'' \<noteq> []" by simp
  let ?p = "responses_request ''sk-test'' (server_model env_with_key) (systemPrompt JUndefined)
              (server_transcript (messages ''hello'' JUndefined JUndefined))"
  let ?c = "chat_request ''sk-test'' (server_model env_with_key)
              (messages ''hello'' JUndefined JUndefined)"
  note a = both_fail_composite [OF key_with k userInput_plain,
      where fetch = "provider_of resp_404 resp_401" and history = JUndefined
        and telemetry = JUndefined]
  note b = both_fail_composite [OF key_with k userInput_plain,
      where fetch = "provider_primary_only resp_404" and history = JUndefined
        and telemetry = JUndefined]
  have r: "response_status resp_404 = 404"
    "error_detail (response_data resp_404) = JStr ''Unknown endpoint''"
    "response_status resp_401 = 401"
    "error_detail (response_data resp_401) = JStr ''Bad key''"
    "\<not> response_ok resp_401" "response_status resp_404 \<in> {400, 404, 405, 415}"
    by (simp_all add: resp_404_def resp_401_def error_detail_message response_ok_def)
  have f: "provider_of resp_404 resp_401 ?p = Some resp_404"
    "provider_of resp_404 resp_401 ?c = Some resp_401" by simp_all
  have 1: "server_callOpenAI (provider_of resp_404 resp_401) env_with_key (JStr ''hello'')
       JUndefined JUndefined =
     ([?p, ?c],
      Inr \<lparr>ok = False, status = 401, result_text = None,
           error = Some (JStr (''Responses API error: Unknown endpoint'' @ [NL]
                               @ ''Chat Completions error: Bad key'')),
           model = None\<rparr>)"
    using a [THEN conjunct2, THEN conjunct2, THEN conjunct1, rule_format,
        of resp_404 "''Unknown endpoint''" resp_401 "''Bad key''"] f r
    by simp
  have t1: "tryResponsesApi (provider_of resp_404 resp_401) ''sk-test''
      (server_model env_with_key) (systemPrompt JUndefined)
      (messages ''hello'' JUndefined JUndefined) = ([?p], Inr (failure 404 (JStr ''Unknown endpoint'')))"
    by (simp add: tryResponsesApi_unfold responses_read_404)
  have t2: "tryChatCompletionsApi (provider_of resp_404 resp_401) ''sk-test''
      (server_model env_with_key) (messages ''hello'' JUndefined JUndefined) =
      ([?c], Inr (failure 401 (JStr ''Bad key'')))"
    by (simp add: tryChat_unfold chat_read_401)
  have n: "\<not> ok (failure 404 (JStr ''Unknown endpoint''))"
    "status (failure 404 (JStr ''Unknown endpoint'')) \<in> {400, 404, 405, 415}"
    "\<not> ok (failure 401 (JStr ''Bad key''))"
    "error (failure 404 (JStr ''Unknown endpoint'')) = Some (JStr ''Unknown endpoint'')"
    "error (failure 401 (JStr ''Bad key'')) = Some (JStr ''Bad key'')"
    by (simp_all add: failure_def)
  have 2: "sublist ''Unknown endpoint''
        (''Responses API error: '' @ ''Unknown endpoint'' @ [NL] @ ''Chat Completions error: ''
         @ ''Bad key'')
     \<and> sublist ''Bad key''
        (''Responses API error: '' @ ''Unknown endpoint'' @ [NL] @ ''Chat Completions error: ''
         @ ''Bad key'')"
    using a [THEN conjunct1, rule_format,
        of "[?p]" "failure 404 (JStr ''Unknown endpoint'')" "[?c]" "failure 401 (JStr ''Bad key'')"
           "JStr ''Unknown endpoint''" "JStr ''Bad key''" "''Unknown endpoint''" "''Bad key''"]
      t1 t2 n
    by (simp del: append.simps)
  have t1': "tryResponsesApi (provider_primary_only resp_404) ''sk-test''
      (server_model env_with_key) (systemPrompt JUndefined)
      (messages ''hello'' JUndefined JUndefined) = ([?p], Inr (failure 404 (JStr ''Unknown endpoint'')))"
    by (simp add: tryResponsesApi_unfold responses_read_404)
  have t2': "tryChatCompletionsApi (provider_primary_only resp_404) ''sk-test''
      (server_model env_with_key) (messages ''hello'' JUndefined JUndefined) =
      ([?c], Inl NetworkError)"
    by (simp add: tryChat_unfold)
  have 3: "server_callOpenAI (provider_primary_only resp_404) env_with_key (JStr ''hello'')
       JUndefined JUndefined = ([?p, ?c], Inl NetworkError)"
    using b [THEN conjunct2, THEN conjunct2, THEN conjunct2, THEN conjunct2, THEN conjunct2,
        rule_format, of "[?p]" "failure 404 (JStr ''Unknown endpoint'')" "[?c]" NetworkError]
      t1' t2' n
    by simp
  from userInput_plain r(1-4) 1 2 3 show ?thesis by blast
qed

section \<open>The two readings of the primary response\<close>

lemma chunks_result_model:
  "chunks_result (Some mdl) data =
     map_sum id (\<lambda>r. if ok r then r\<lparr>model := Some mdl\<rparr> else r) (chunks_result None data)"
  by (simp add: chunks_result_def Let_def success_def failure_def split: sum.splits)

lemma chunks_result_trimmed:
  "chunks_result m data = Inr r \<Longrightarrow> map_option trim (result_text r) = result_text r"
  by (auto simp: chunks_result_def Let_def success_def failure_def trim_idem
      split: sum.splits if_splits)

lemma worker_read_failure:
  assumes "responses_read response = Inr r" "\<not> ok r"
  shows "worker_read mdl response = Inr r"
  using assms
  by (auto simp: responses_read_def worker_read_def Let_def success_def chunks_result_model
      split: option.splits if_splits)

lemma same_outcome_reads: "same_outcome (worker_read mdl response) (responses_read response)"
proof (cases "response_ok response")
  case False
  then show ?thesis by (simp add: worker_read_def responses_read_def failure_def)
next
  case True
  show ?thesis
  proof (cases "output_text (response_data response)")
    case (Some s)
    with True show ?thesis by (simp add: worker_read_def responses_read_def success_def)
  next
    case None
    show ?thesis
    proof (cases "chunks_result None (response_data response)")
      case (Inl e)
      with True None show ?thesis
        by (simp add: worker_read_def responses_read_def chunks_result_model)
    next
      case (Inr r)
      with True None chunks_result_trimmed [OF Inr] show ?thesis
        by (simp add: worker_read_def responses_read_def chunks_result_model)
    qed
  qed
qed

lemma worker_callOpenAI_throw:
  assumes "OPENAI_API_KEY env = Some key" "key \<noteq> []" "userInput input = Inl e"
  shows "worker_callOpenAI fetch env input history telemetry = ([], Inl e)"
  using assms by (simp add: worker_callOpenAI_def env_or_def)

lemma worker_callOpenAI_unfold:
  assumes "OPENAI_API_KEY env = Some key" "key \<noteq> []" "userInput input = Inr ui" "ui \<noteq> []"
  shows "worker_callOpenAI fetch env input history telemetry =
     ([responses_request key (worker_model env) (systemPrompt telemetry)
         (worker_transcript history ui)],
      case fetch (responses_request key (worker_model env) (systemPrompt telemetry)
                    (worker_transcript history ui)) of
        None \<Rightarrow> Inl NetworkError
      | Some response \<Rightarrow> worker_read (worker_model env) response)"
  using assms
  by (simp add: worker_callOpenAI_def env_or_def Let_def split: option.splits)

lemma worker_never_secondary:
  "\<not> secondary_called (fst (worker_callOpenAI fetch env input history telemetry))"
  by (cases "userInput input")
     (simp_all add: worker_callOpenAI_def secondary_called_def Let_def split: option.splits)

lemma userInput_blank: "userInput (JStr ''  '') = Inr []"
  by (simp add: userInput_def or_js_def trim_def is_space_def slice_to_def)

lemma response_ok_empty: "response_ok resp_empty"
  by (simp add: response_ok_def resp_empty_def)

lemma responses_read_empty:
  "responses_read resp_empty = Inr (failure 502 (JStr ''OpenAI response missing text.''))"
  by (simp add: responses_read_def resp_empty_def response_ok_def output_text_def
      chunks_result_def output_chunks_def or_js_def)

lemma responses_read_hello: "responses_read resp_hello = Inr (success '' Hello '' None)"
  by (simp add: responses_read_def resp_hello_def response_ok_def output_text_def trim_def
      is_space_def)

lemma worker_read_hello: "worker_read m resp_hello = Inr (success ''Hello'' (Some m))"
  by (simp add: worker_read_def resp_hello_def response_ok_def output_text_def trim_def
      is_space_def)

lemma worker_read_404: "worker_read m resp_404 = Inr (failure 404 (JStr ''Unknown endpoint''))"
  by (simp add: worker_read_def resp_404_def response_ok_def error_detail_message)

lemma chat_read_ok: "chat_read resp_chat_ok = success ''Hi there'' None"
  by (simp add: chat_read_def resp_chat_ok_def response_ok_def chat_answer_def trim_def
      is_space_def)

section \<open>A primary response without text\<close>

text \<open>
  Claim C2, as stated, says that the long-running process retries a primary response
  with HTTP success and no text with the secondary protocol. It does not: with a primary
  response of status 200 and an empty object, and a secondary endpoint that would answer,
  the result is the 502 failure and only the primary request was sent.
\<close>

theorem empty_response_not_retried:
  "server_callOpenAI (provider_of resp_empty resp_chat_ok) env_with_key (JStr ''hello'')
     JUndefined JUndefined =
     ([responses_request ''sk-test'' (server_model env_with_key) (systemPrompt JUndefined)
         (server_transcript (messages ''hello'' JUndefined JUndefined))],
      Inr \<lparr>ok = False, status = 502, result_text = None,
           error = Some (JStr ''OpenAI response missing text.''), model = None\<rparr>)
   \<and> \<not> secondary_called
        [responses_request ''sk-test'' (server_model env_with_key) (systemPrompt JUndefined)
           (server_transcript (messages ''hello'' JUndefined JUndefined))]"
proof -
  have k: "''sk-test'' \<noteq> []" by simp
  have p: "tryResponsesApi (provider_of resp_empty resp_chat_ok) ''sk-test''
             (server_model env_with_key) (systemPrompt JUndefined)
             (messages ''hello'' JUndefined JUndefined) =
           ([responses_request ''sk-test'' (server_model env_with_key) (systemPrompt JUndefined)
               (server_transcript (messages ''hello'' JUndefined JUndefined))],
            Inr (failure 502 (JStr ''OpenAI response missing text.'')))"
    by (simp add: tryResponsesApi_unfold responses_read_empty)
  have "server_callOpenAI (provider_of resp_empty resp_chat_ok) env_with_key (JStr ''hello'')
     JUndefined JUndefined =
     ([responses_request ''sk-test'' (server_model env_with_key) (systemPrompt JUndefined)
         (server_transcript (messages ''hello'' JUndefined JUndefined))],
      Inr (failure 502 (JStr ''OpenAI response missing text.'')))"
    by (rule fallback_free [OF key_with k userInput_plain p])
       (simp add: failure_def fallbackableStatuses_def)
  then show ?thesis
    by (simp add: failure_def secondary_called_def)
qed

text \<open>
  Claim C2, amended. In neither variant is a primary response with HTTP success and no
  extractable text retried. In \<^verbatim>\<open>server.js\<close> such a response gives the failure with status
  502 and the error \<^verbatim>\<open>OpenAI response missing text.\<close>; 502 is not among the statuses that
  allow the fallback, so the strategy returns that failure after the primary request
  alone, without a call to the secondary endpoint. \<^verbatim>\<open>worker.js\<close> has no secondary
  protocol at all and returns the same failure. (The primary request is sent once the
  input has been converted to the string \<open>ui\<close>; the edge handler sends it when \<open>ui\<close> is
  not empty.)
\<close>

theorem empty_response_surfaced:
  assumes "OPENAI_API_KEY env = Some key" "key \<noteq> []" "userInput input = Inr ui"
    and "fetch (responses_request key (server_model env) (systemPrompt telemetry)
                  (server_transcript (messages ui history telemetry))) = Some response"
    and "response_ok response"
    and "responses_read response = Inr r" "\<not> ok r"
  shows "status r = 502 \<and> error r = Some (JStr ''OpenAI response missing text.'')
         \<and> server_callOpenAI fetch env input history telemetry =
             ([responses_request key (server_model env) (systemPrompt telemetry)
                 (server_transcript (messages ui history telemetry))], Inr r)
         \<and> \<not> secondary_called (fst (server_callOpenAI fetch env input history telemetry))
         \<and> \<not> secondary_called (fst (worker_callOpenAI fetch env input history telemetry))
         \<and> (ui \<noteq> []
              \<and> fetch (responses_request key (worker_model env) (systemPrompt telemetry)
                         (worker_transcript history ui)) = Some response
            \<longrightarrow> worker_callOpenAI fetch env input history telemetry =
                  ([responses_request key (worker_model env) (systemPrompt telemetry)
                      (worker_transcript history ui)], Inr r))"
proof -
  have r: "r = failure 502 (JStr ''OpenAI response missing text.'')"
    using assms(5-7) by (rule responses_read_ok_failure)
  then have st: "status r = 502" and er: "error r = Some (JStr ''OpenAI response missing text.'')"
    by (simp_all add: failure_def)
  have p: "tryResponsesApi fetch key (server_model env) (systemPrompt telemetry)
             (messages ui history telemetry) =
           ([responses_request key (server_model env) (systemPrompt telemetry)
               (server_transcript (messages ui history telemetry))], Inr r)"
    by (simp add: tryResponsesApi_unfold assms(4,6))
  have s: "server_callOpenAI fetch env input history telemetry =
             ([responses_request key (server_model env) (systemPrompt telemetry)
                 (server_transcript (messages ui history telemetry))], Inr r)"
    using st by (intro fallback_free [OF assms(1-3) p]) (simp add: fallbackableStatuses_def)
  have ns: "\<not> secondary_called (fst (server_callOpenAI fetch env input history telemetry))"
    by (simp add: s secondary_called_def)
  have w: "ui \<noteq> []
              \<and> fetch (responses_request key (worker_model env) (systemPrompt telemetry)
                         (worker_transcript history ui)) = Some response
            \<longrightarrow> worker_callOpenAI fetch env input history telemetry =
                  ([responses_request key (worker_model env) (systemPrompt telemetry)
                      (worker_transcript history ui)], Inr r)"
    using worker_callOpenAI_unfold [OF assms(1-3)] worker_read_failure [OF assms(6,7)]
    by simp
  from st er s ns worker_never_secondary w show ?thesis by blast
qed

theorem empty_response_surfaced_witness:
  "userInput (JStr ''hello'') = Inr ''hello''
   \<and> provider_of resp_empty resp_chat_ok
       (responses_request ''sk-test'' (server_model env_with_key) (systemPrompt JUndefined)
          (server_transcript (messages ''hello'' JUndefined JUndefined)))
     = Some resp_empty
   \<and> response_ok resp_empty
   \<and> responses_read resp_empty = Inr (failure 502 (JStr ''OpenAI response missing text.''))
   \<and> server_callOpenAI (provider_of resp_empty resp_chat_ok) env_with_key (JStr ''hello'')
        JUndefined JUndefined =
       ([responses_request ''sk-test'' (server_model env_with_key) (systemPrompt JUndefined)
           (server_transcript (messages ''hello'' JUndefined JUndefined))],
        Inr (failure 502 (JStr ''OpenAI response missing text.'')))
   \<and> worker_callOpenAI (provider_of resp_empty resp_chat_ok) env_with_key (JStr ''hello'')
        JUndefined JUndefined =
       ([responses_request ''sk-test'' (worker_model env_with_key) (systemPrompt JUndefined)
           (worker_transcript JUndefined ''hello'')],
        Inr (failure 502 (JStr ''OpenAI response missing text.'')))"
proof -
  have k: "''sk-test'' \<noteq> []" by simp
  have f: "provider_of resp_empty resp_chat_ok
       (responses_request ''sk-test'' (server_model env_with_key) (systemPrompt JUndefined)
          (server_transcript (messages ''hello'' JUndefined JUndefined)))
     = Some resp_empty" by simp
  have n: "\<not> ok (failure 502 (JStr ''OpenAI response missing text.''))"
    by (simp add: failure_def)
  note a = empty_response_surfaced [where fetch = "provider_of resp_empty resp_chat_ok",
      OF key_with k userInput_plain f response_ok_empty responses_read_empty n]
  from a userInput_plain f response_ok_empty responses_read_empty show ?thesis
    by simp
qed

section \<open>The two variants compared\<close>

text \<open>
  Claim C3, as stated, fails: only \<^verbatim>\<open>server.js\<close> has the fallback. With the same
  environment, input and provider (status 404 on the primary endpoint, an answer on the
  secondary one), the edge handler returns the failure 404 and the long-running process
  returns \<^verbatim>\<open>ok: true\<close> with the text of the secondary protocol.
\<close>

theorem variants_disagree_on_fallback:
  "snd (worker_callOpenAI (provider_of resp_404 resp_chat_ok) env_with_key (JStr ''hello'')
          JUndefined JUndefined) =
     Inr \<lparr>ok = False, status = 404, result_text = None,
          error = Some (JStr ''Unknown endpoint''), model = None\<rparr>
   \<and> snd (server_callOpenAI (provider_of resp_404 resp_chat_ok) env_with_key (JStr ''hello'')
          JUndefined JUndefined) =
     Inr \<lparr>ok = True, status = 200, result_text = Some ''Hi there'', error = None, model = None\<rparr>"
proof -
  have k: "''sk-test'' \<noteq> []" by simp
  have u: "''hello'' \<noteq> []" by simp
  have w: "snd (worker_callOpenAI (provider_of resp_404 resp_chat_ok) env_with_key (JStr ''hello'')
          JUndefined JUndefined) = Inr (failure 404 (JStr ''Unknown endpoint''))"
    by (simp add: worker_callOpenAI_unfold [OF key_with k userInput_plain u] worker_read_404)
  have n: "\<not> ok (failure 404 (JStr ''Unknown endpoint''))"
    "status (failure 404 (JStr ''Unknown endpoint'')) \<in> {400, 404, 405, 415}"
    by (simp_all add: failure_def)
  have t2: "tryChatCompletionsApi (provider_of resp_404 resp_chat_ok) ''sk-test''
      (server_model env_with_key) (messages ''hello'' JUndefined JUndefined) =
      ([chat_request ''sk-test'' (server_model env_with_key)
          (messages ''hello'' JUndefined JUndefined)], Inr (success ''Hi there'' None))"
    by (simp add: tryChat_unfold chat_read_ok)
  have s: "snd (server_callOpenAI (provider_of resp_404 resp_chat_ok) env_with_key (JStr ''hello'')
          JUndefined JUndefined) = Inr (success ''Hi there'' None)"
    unfolding fallback_taken [OF key_with k userInput_plain primary_404 n] t2
    by (simp add: success_def)
  from w s show ?thesis by (simp add: failure_def success_def)
qed

text \<open>
  Claim C3, amended. With a credential configured and an input that is not empty after
  trimming, when the provider gives the two variants the same answer to their primary
  request and that answer is not a response with one of the statuses 400, 404, 405 and
  415, the two strategies have the same outcome: the same \<^verbatim>\<open>ok\<close>, \<^verbatim>\<open>status\<close> and \<^verbatim>\<open>error\<close>,
  and the same text up to trimming (the edge handler trims the aggregated text, the
  long-running process returns it as it came). An input that cannot be converted to a
  string makes both throw the same TypeError.
\<close>

theorem variants_agree:
  assumes "OPENAI_API_KEY env = Some key" "key \<noteq> []"
    and "userInput input \<noteq> Inr []"
    and "\<forall>ui. userInput input = Inr ui \<longrightarrow>
           fetch (responses_request key (worker_model env) (systemPrompt telemetry)
                    (worker_transcript history ui)) = answer
           \<and> fetch (responses_request key (server_model env) (systemPrompt telemetry)
                      (server_transcript (messages ui history telemetry))) = answer"
    and "\<forall>response. answer = Some response \<longrightarrow> response_status response \<notin> {400, 404, 405, 415}"
  shows "same_outcome (snd (worker_callOpenAI fetch env input history telemetry))
                      (snd (server_callOpenAI fetch env input history telemetry))"
proof (cases "userInput input")
  case (Inl e)
  then show ?thesis
    by (simp add: worker_callOpenAI_throw [OF assms(1,2)] server_callOpenAI_throw [OF assms(1,2)])
next
  case (Inr ui)
  with assms(3) have ne: "ui \<noteq> []" by simp
  from assms(4) Inr have fw: "fetch (responses_request key (worker_model env)
      (systemPrompt telemetry) (worker_transcript history ui)) = answer"
    and fs: "fetch (responses_request key (server_model env) (systemPrompt telemetry)
      (server_transcript (messages ui history telemetry))) = answer" by simp_all
  show ?thesis
  proof (cases answer)
    case None
    then show ?thesis
      using fw fs
      by (simp add: worker_callOpenAI_unfold [OF assms(1,2) Inr ne]
          server_callOpenAI_unfold [OF assms(1,2) Inr] tryResponsesApi_unfold)
  next
    case (Some response)
    have so: "same_outcome (worker_read (worker_model env) response) (responses_read response)"
      by (rule same_outcome_reads)
    have st: "\<And>r. responses_read response = Inr r \<Longrightarrow> \<not> ok r
                 \<Longrightarrow> status r \<notin> fallbackableStatuses"
    proof -
      fix r assume a: "responses_read response = Inr r" "\<not> ok r"
      show "status r \<notin> fallbackableStatuses"
      proof (cases "response_ok response")
        case True
        from responses_read_ok_failure [OF True a] show ?thesis
          by (simp add: failure_def fallbackableStatuses_def)
      next
        case False
        with a have "status r = response_status response"
          by (auto simp: responses_read_def failure_def)
        with assms(5) Some show ?thesis by (simp add: fallbackableStatuses_def)
      qed
    qed
    show ?thesis
      using Some fw fs so st
      by (auto simp: worker_callOpenAI_unfold [OF assms(1,2) Inr ne]
          server_callOpenAI_unfold [OF assms(1,2) Inr] tryResponsesApi_unfold
          split: sum.splits)
  qed
qed

theorem variants_agree_witness:
  "userInput (JStr ''hello'') = Inr ''hello''
   \<and> provider_of resp_hello resp_chat_ok
       (responses_request ''sk-test'' (worker_model env_with_key) (systemPrompt JUndefined)
          (worker_transcript JUndefined ''hello''))
     = Some resp_hello
   \<and> provider_of resp_hello resp_chat_ok
       (responses_request ''sk-test'' (server_model env_with_key) (systemPrompt JUndefined)
          (server_transcript (messages ''hello'' JUndefined JUndefined)))
     = Some resp_hello
   \<and> response_status resp_hello = 200
   \<and> same_outcome
       (snd (worker_callOpenAI (provider_of resp_hello resp_chat_ok) env_with_key (JStr ''hello'')
               JUndefined JUndefined))
       (snd (server_callOpenAI (provider_of resp_hello resp_chat_ok) env_with_key (JStr ''hello'')
               JUndefined JUndefined))
   \<and> snd (worker_callOpenAI (provider_of resp_hello resp_chat_ok) env_with_key (JStr ''hello'')
          JUndefined JUndefined) = Inr (success ''Hello'' (Some ''gpt-4.1''))
   \<and> snd (server_callOpenAI (provider_of resp_hello resp_chat_ok) env_with_key (JStr ''hello'')
          JUndefined JUndefined) = Inr (success '' Hello '' None)
   \<and> same_outcome
       (snd (worker_callOpenAI (provider_of resp_404 resp_chat_ok) env_with_key unprintable
               JUndefined JUndefined))
       (snd (server_callOpenAI (provider_of resp_404 resp_chat_ok) env_with_key unprintable
               JUndefined JUndefined))
   \<and> snd (worker_callOpenAI (provider_of resp_404 resp_chat_ok) env_with_key unprintable
          JUndefined JUndefined) = Inl TypeError"
proof -
  have k: "''sk-test'' \<noteq> []" by simp
  have u: "userInput (JStr ''hello'') \<noteq> Inr []" by (simp add: userInput_plain)
  have ne: "''hello'' \<noteq> []" by simp
  have fw: "provider_of resp_hello resp_chat_ok
       (responses_request ''sk-test'' (worker_model env_with_key) (systemPrompt JUndefined)
          (worker_transcript JUndefined ''hello''))
     = Some resp_hello" by simp
  have fs: "provider_of resp_hello resp_chat_ok
       (responses_request ''sk-test'' (server_model env_with_key) (systemPrompt JUndefined)
          (server_transcript (messages ''hello'' JUndefined JUndefined)))
     = Some resp_hello" by simp
  have h4: "\<forall>ui. userInput (JStr ''hello'') = Inr ui \<longrightarrow>
           provider_of resp_hello resp_chat_ok
             (responses_request ''sk-test'' (worker_model env_with_key) (systemPrompt JUndefined)
                (worker_transcript JUndefined ui)) = Some resp_hello
           \<and> provider_of resp_hello resp_chat_ok
               (responses_request ''sk-test'' (server_model env_with_key)
                  (systemPrompt JUndefined)
                  (server_transcript (messages ui JUndefined JUndefined))) = Some resp_hello"
    by simp
  have st: "\<forall>response. Some resp_hello = Some response \<longrightarrow>
              response_status response \<notin> {400, 404, 405, 415}"
    by (simp add: resp_hello_def)
  note a = variants_agree [where fetch = "provider_of resp_hello resp_chat_ok",
      OF key_with k u h4 st]
  have w: "snd (worker_callOpenAI (provider_of resp_hello resp_chat_ok) env_with_key (JStr ''hello'')
          JUndefined JUndefined) = Inr (success ''Hello'' (Some ''gpt-4.1''))"
    by (simp add: worker_callOpenAI_unfold [OF key_with k userInput_plain ne] worker_read_hello
        models_with)
  have p: "tryResponsesApi (provider_of resp_hello resp_chat_ok) ''sk-test''
             (server_model env_with_key) (systemPrompt JUndefined)
             (messages ''hello'' JUndefined JUndefined) =
           ([responses_request ''sk-test'' (server_model env_with_key) (systemPrompt JUndefined)
               (server_transcript (messages ''hello'' JUndefined JUndefined))],
            Inr (success '' Hello '' None))"
    by (simp add: tryResponsesApi_unfold responses_read_hello)
  have s: "server_callOpenAI (provider_of resp_hello resp_chat_ok) env_with_key (JStr ''hello'')
          JUndefined JUndefined =
          ([responses_request ''sk-test'' (server_model env_with_key) (systemPrompt JUndefined)
              (server_transcript (messages ''hello'' JUndefined JUndefined))],
           Inr (success '' Hello '' None))"
    by (rule fallback_free [OF key_with k userInput_plain p]) (simp add: success_def)
  have r200: "response_status resp_hello = 200" by (simp add: resp_hello_def)
  have u2: "userInput unprintable \<noteq> Inr []" by (simp add: userInput_unprintable)
  have h4': "\<forall>ui. userInput unprintable = Inr ui \<longrightarrow>
           provider_of resp_404 resp_chat_ok
             (responses_request ''sk-test'' (worker_model env_with_key) (systemPrompt JUndefined)
                (worker_transcript JUndefined ui)) = Some resp_hello
           \<and> provider_of resp_404 resp_chat_ok
               (responses_request ''sk-test'' (server_model env_with_key)
                  (systemPrompt JUndefined)
                  (server_transcript (messages ui JUndefined JUndefined))) = Some resp_hello"
    by (simp add: userInput_unprintable)
  note b = variants_agree [where fetch = "provider_of resp_404 resp_chat_ok",
      OF key_with k u2 h4' st]
  have t: "snd (worker_callOpenAI (provider_of resp_404 resp_chat_ok) env_with_key unprintable
          JUndefined JUndefined) = Inl TypeError"
    by (simp add: worker_callOpenAI_throw [OF key_with k userInput_unprintable])
  from a b w s fw fs r200 t userInput_plain show ?thesis by simp
qed

section \<open>Validation of the input\<close>

text \<open>
  Claim C1, as stated, covers each variant and every request. It fails in two places. The
  long-running process does not check the input: for the input of two spaces it sends the
  primary request, with the empty user line, and returns what the provider answers. And
  in the edge handler the credential check comes first, so without a credential the same
  input gives status 500.
\<close>

theorem empty_input_not_rejected:
  "server_callOpenAI (provider_of resp_hello resp_chat_ok) env_with_key (JStr ''  '')
     JUndefined JUndefined =
     ([responses_request ''sk-test'' (server_model env_with_key) (systemPrompt JUndefined)
         (server_transcript (messages [] JUndefined JUndefined))],
      Inr \<lparr>ok = True, status = 200, result_text = Some '' Hello '', error = None, model = None\<rparr>)
   \<and> getprop (json_body (responses_request ''sk-test'' (server_model env_with_key)
                 (systemPrompt JUndefined)
                 (server_transcript (messages [] JUndefined JUndefined)))) ''input''
     = JStr ''User: ''
   \<and> worker_callOpenAI (provider_of resp_hello resp_chat_ok) env_without_key (JStr ''  '')
        JUndefined JUndefined =
       ([], Inr \<lparr>ok = False, status = 500, result_text = None,
                 error = Some (JStr ''Missing OPENAI_API_KEY.''), model = None\<rparr>)"
proof -
  have k: "''sk-test'' \<noteq> []" by simp
  have p: "tryResponsesApi (provider_of resp_hello resp_chat_ok) ''sk-test''
             (server_model env_with_key) (systemPrompt JUndefined)
             (messages [] JUndefined JUndefined) =
           ([responses_request ''sk-test'' (server_model env_with_key) (systemPrompt JUndefined)
               (server_transcript (messages [] JUndefined JUndefined))],
            Inr (success '' Hello '' None))"
    by (simp add: tryResponsesApi_unfold responses_read_hello)
  have s: "server_callOpenAI (provider_of resp_hello resp_chat_ok) env_with_key (JStr ''  '')
          JUndefined JUndefined =
          ([responses_request ''sk-test'' (server_model env_with_key) (systemPrompt JUndefined)
              (server_transcript (messages [] JUndefined JUndefined))],
           Inr (success '' Hello '' None))"
    by (rule fallback_free [OF key_with k userInput_blank p]) (simp add: success_def)
  have t: "getprop (json_body (responses_request ''sk-test'' (server_model env_with_key)
                 (systemPrompt JUndefined)
                 (server_transcript (messages [] JUndefined JUndefined)))) ''input''
     = JStr ''User: ''"
    by (simp add: responses_request_def server_transcript_messages normalizeHistory_def)
  have w: "worker_callOpenAI (provider_of resp_hello resp_chat_ok) env_without_key (JStr ''  '')
        JUndefined JUndefined =
       ([], Inr (failure 500 (JStr ''Missing OPENAI_API_KEY.'')))"
    by (simp add: worker_callOpenAI_def env_without_key_def env_or_def)
  from s t w show ?thesis by (simp add: success_def failure_def)
qed

text \<open>
  Claim C1, amended. In the edge handler (\<^verbatim>\<open>worker.js\<close>), with a credential configured,
  every input for which \<^verbatim>\<open>String(input || "")\<close> is empty after trimming (white space only,
  the empty string, or an absent input) gives \<^verbatim>\<open>ok: false\<close>, status 400 and the error
  \<^verbatim>\<open>Missing input.\<close>, and nothing is sent to the provider.
\<close>

theorem worker_missing_input:
  assumes "OPENAI_API_KEY env = Some key" "key \<noteq> []"
    and "ToString (if truthy input then input else JStr []) = Inr s" "trim s = []"
  shows "worker_callOpenAI fetch env input history telemetry =
           ([], Inr \<lparr>ok = False, status = 400, result_text = None,
                     error = Some (JStr ''Missing input.''), model = None\<rparr>)"
proof -
  have "userInput input = Inr []"
    using assms(3,4) by (simp add: userInput_def or_js_def slice_to_def)
  then show ?thesis
    using assms(1,2) by (simp add: worker_callOpenAI_def env_or_def failure_def)
qed

theorem worker_missing_input_witness:
  "OPENAI_API_KEY env_with_key = Some ''sk-test''
   \<and> ToString (if truthy (JStr ''  '') then JStr ''  '' else JStr []) = Inr ''  ''
   \<and> trim ''  '' = []
   \<and> worker_callOpenAI (provider_of resp_hello resp_chat_ok) env_with_key (JStr ''  '')
        JUndefined JUndefined =
       ([], Inr \<lparr>ok = False, status = 400, result_text = None,
                 error = Some (JStr ''Missing input.''), model = None\<rparr>)
   \<and> ToString (if truthy JUndefined then JUndefined else JStr []) = Inr []
   \<and> worker_callOpenAI (provider_of resp_hello resp_chat_ok) env_with_key JUndefined
        JUndefined JUndefined =
       ([], Inr \<lparr>ok = False, status = 400, result_text = None,
                 error = Some (JStr ''Missing input.''), model = None\<rparr>)"
proof -
  have k: "''sk-test'' \<noteq> []" by simp
  have b: "ToString (if truthy (JStr ''  '') then JStr ''  '' else JStr []) = Inr ''  ''"
    by simp
  have tb: "trim ''  '' = []" by (simp add: trim_def is_space_def)
  have u: "ToString (if truthy JUndefined then JUndefined else JStr []) = Inr []"
    by simp
  have tu: "trim [] = []" by simp
  from key_with b tb u worker_missing_input [OF key_with k b tb]
    worker_missing_input [OF key_with k u tu]
  show ?thesis by blast
qed

section \<open>Errors at the HTTP boundary\<close>





































end
